theory Spec2Isabelle
  imports Complex_Main "HOL-Library.AList"
begin

section \<open>Python numbers\<close>

text \<open>
  A Python \<^verbatim>\<open>Decimal\<close> is modelled by the rational number it denotes. The
  arithmetic of \<^verbatim>\<open>decimal\<close> is not exact: under the default context every
  operation (\<^verbatim>\<open>+\<close>, \<^verbatim>\<open>-\<close>, \<^verbatim>\<open>*\<close>, \<^verbatim>\<open>/\<close>, unary minus, \<^verbatim>\<open>abs\<close>)
  returns its exact result rounded to 28 significant digits, halves to the even
  neighbour. Comparisons are exact. Exponent limits, infinities and NaN are outside the
  model.
\<close>

type_synonym decimal = rat

definition round_half_even :: "rat \<Rightarrow> int" where
  "round_half_even x =
     (let f = \<lfloor>x\<rfloor>; d = x - of_int f
      in if d < 1 / 2 then f else if 1 / 2 < d then f + 1 else if even f then f else f + 1)"

text \<open>A power of the base with an integer exponent.\<close>

definition bpow :: "int \<Rightarrow> int \<Rightarrow> rat" where
  "bpow b e = (if 0 \<le> e then of_int b ^ nat e else 1 / of_int b ^ nat (- e))"

text \<open>The number of digits of a positive integer in base \<open>b\<close>.\<close>

function idigits :: "int \<Rightarrow> int \<Rightarrow> int" where
  "idigits b n = (if n \<le> 0 \<or> b \<le> 1 then 0 else 1 + idigits b (n div b))"
  by pat_completeness auto
termination
  by (relation "measure (\<lambda>(b, n). nat n)") (auto simp add: int_div_less_self)

declare idigits.simps [simp del]

text \<open>
  The exponent of the leading digit of a positive number: the integer \<open>k\<close> with
  \<open>b ^ k \<le> x < b ^ (k + 1)\<close>.
\<close>

definition ilog :: "int \<Rightarrow> rat \<Rightarrow> int" where
  "ilog b x =
     (if 1 \<le> x then idigits b \<lfloor>x\<rfloor> - 1
      else
        (let y = 1 / x; m = idigits b \<lfloor>y\<rfloor> - 1
         in if y = of_int b ^ nat m then - m else - (m + 1)))"

text \<open>
  Rounding to \<open>prec\<close> significant digits in base \<open>b\<close>, halves to even: the
  magnitude is scaled so that its integer part has \<open>prec\<close> digits, rounded to an
  integer and scaled back.
\<close>

definition round_sig :: "int \<Rightarrow> int \<Rightarrow> rat \<Rightarrow> rat" where
  "round_sig b prec x =
     (if x = 0 then 0
      else
        (let e = ilog b \<bar>x\<bar> - (prec - 1);
             n = round_half_even (\<bar>x\<bar> / bpow b e)
         in sgn x * of_int n * bpow b e))"

definition dec_round :: "rat \<Rightarrow> decimal" where
  "dec_round x = round_sig 10 28 x"

definition dec_add :: "decimal \<Rightarrow> decimal \<Rightarrow> decimal" where
  "dec_add a b = dec_round (a + b)"

definition dec_sub :: "decimal \<Rightarrow> decimal \<Rightarrow> decimal" where
  "dec_sub a b = dec_round (a - b)"

definition dec_mul :: "decimal \<Rightarrow> decimal \<Rightarrow> decimal" where
  "dec_mul a b = dec_round (a * b)"

definition dec_div :: "decimal \<Rightarrow> decimal \<Rightarrow> decimal" where
  "dec_div a b = dec_round (a / b)"

definition dec_neg :: "decimal \<Rightarrow> decimal" where
  "dec_neg a = dec_round (- a)"

definition dec_abs :: "decimal \<Rightarrow> decimal" where
  "dec_abs a = dec_round \<bar>a\<bar>"

text \<open>A number that the context leaves as it is.\<close>

definition dec_exact :: "rat \<Rightarrow> bool" where
  "dec_exact x = (dec_round x = x)"

text \<open>
  A Python \<^verbatim>\<open>float\<close> is an IEEE double. It is modelled by the decimal that
  \<^verbatim>\<open>str\<close> prints for it, so that \<^verbatim>\<open>Decimal(str(x))\<close> is \<open>x\<close> itself and
  comparisons of floats are comparisons of these decimals. The double behind a decimal
  is its rounding to 53 significant bits, and the product of two floats is the exact
  product of their doubles rounded to 53 significant bits, halves to even. Overflow,
  subnormal numbers, infinities and NaN are outside the model.
\<close>

type_synonym pyfloat = rat

definition fl :: "rat \<Rightarrow> rat" where
  "fl x = round_sig 2 53 x"

definition float_mul :: "pyfloat \<Rightarrow> pyfloat \<Rightarrow> rat" where
  "float_mul a b = fl (fl a * fl b)"

text \<open>
  An \<^verbatim>\<open>Optional[Decimal]\<close> is a \<open>decimal option\<close>. Python's truth test on such a
  value is false for \<^verbatim>\<open>None\<close> and for zero.
\<close>

definition truthy :: "decimal option \<Rightarrow> bool" where
  "truthy v = (case v of None \<Rightarrow> False | Some x \<Rightarrow> x \<noteq> 0)"

text \<open>\<^verbatim>\<open>a or b\<close> on optional decimals: \<open>a\<close> when it is truthy, \<open>b\<close> otherwise.\<close>

definition py_or :: "decimal option \<Rightarrow> decimal option \<Rightarrow> decimal option" where
  "py_or a b = (if truthy a then a else b)"

text \<open>
  An exception is a value: its class name and its message. Every handler of the
  code is \<^verbatim>\<open>except Exception\<close> or an \<^verbatim>\<open>isinstance(_, Exception)\<close> test, so the
  class matters only to the retry decorator.
\<close>

datatype exn = Exn (exn_class: string) (exn_msg: string)

text \<open>\<^verbatim>\<open>str.lower\<close> and \<^verbatim>\<open>str.upper\<close> on ASCII letters.\<close>

definition lower_char :: "char \<Rightarrow> char" where
  "lower_char c =
     (case map_of (zip ''ABCDEFGHIJKLMNOPQRSTUVWXYZ'' ''abcdefghijklmnopqrstuvwxyz'') c of
        Some d \<Rightarrow> d | None \<Rightarrow> c)"

definition upper_char :: "char \<Rightarrow> char" where
  "upper_char c =
     (case map_of (zip ''abcdefghijklmnopqrstuvwxyz'' ''ABCDEFGHIJKLMNOPQRSTUVWXYZ'') c of
        Some d \<Rightarrow> d | None \<Rightarrow> c)"

definition lower :: "string \<Rightarrow> string" where
  "lower s = map lower_char s"

definition upper :: "string \<Rightarrow> string" where
  "upper s = map upper_char s"

section \<open>exchanges/base.py: OrderResult\<close>

record OrderResult =
  success :: bool
  order_id :: "string option"
  side :: "string option"
  size' :: "decimal option"
  price :: "decimal option"
  status :: "string option"
  error_message :: "string option"
  filled_size :: "decimal option"
  avg_price :: "decimal option"

text \<open>The dataclass constructor with its defaults: every field but \<open>success\<close> is \<^verbatim>\<open>None\<close>.\<close>

definition OrderResult_init :: "bool \<Rightarrow> OrderResult" where
  "OrderResult_init ok =
     \<lparr>success = ok, order_id = None, side = None, size' = None, price = None,
      status = None, error_message = None, filled_size = None, avg_price = None\<rparr>"

section \<open>strategy/position_tracker.py\<close>

record PositionTracker =
  backpack_position :: decimal
  lighter_position :: decimal

definition PositionTracker_init :: PositionTracker where
  "PositionTracker_init = \<lparr>backpack_position = 0, lighter_position = 0\<rparr>"

text \<open>
  \<^verbatim>\<open>refresh_positions\<close> gathers the two \<^verbatim>\<open>get_position\<close> calls with
  \<^verbatim>\<open>return_exceptions=True\<close>: each outcome is an exception or a value. Nothing in the
  \<^verbatim>\<open>try\<close> block raises after the gather, so the function returns \<^verbatim>\<open>True\<close>.
\<close>

definition refresh_positions ::
  "exn + decimal \<Rightarrow> exn + decimal \<Rightarrow> PositionTracker \<Rightarrow> bool \<times> PositionTracker" where
  "refresh_positions bp_pos lt_pos self =
     (let self1 = (case bp_pos of Inl e \<Rightarrow> self | Inr v \<Rightarrow> self\<lparr>backpack_position := v\<rparr>);
          self2 = (case lt_pos of Inl e \<Rightarrow> self1 | Inr v \<Rightarrow> self1\<lparr>lighter_position := v\<rparr>)
      in (True, self2))"

definition update_backpack_position :: "decimal \<Rightarrow> PositionTracker \<Rightarrow> PositionTracker" where
  "update_backpack_position delta self =
     self\<lparr>backpack_position := dec_add (backpack_position self) delta\<rparr>"

definition update_lighter_position :: "decimal \<Rightarrow> PositionTracker \<Rightarrow> PositionTracker" where
  "update_lighter_position delta self =
     self\<lparr>lighter_position := dec_add (lighter_position self) delta\<rparr>"

definition get_backpack_position :: "PositionTracker \<Rightarrow> decimal" where
  "get_backpack_position self = backpack_position self"

definition get_lighter_position :: "PositionTracker \<Rightarrow> decimal" where
  "get_lighter_position self = lighter_position self"

definition get_net_position :: "PositionTracker \<Rightarrow> decimal" where
  "get_net_position self = dec_add (backpack_position self) (lighter_position self)"

definition is_position_balanced :: "decimal \<Rightarrow> PositionTracker \<Rightarrow> bool" where
  "is_position_balanced tolerance self = (dec_abs (get_net_position self) \<le> tolerance)"

section \<open>strategy/order_book_manager.py\<close>

record OrderBookManager =
  backpack_best_bid :: "decimal option"
  backpack_best_ask :: "decimal option"
  backpack_ready :: bool
  lighter_best_bid :: "decimal option"
  lighter_best_ask :: "decimal option"
  lighter_ready :: bool

definition OrderBookManager_init :: OrderBookManager where
  "OrderBookManager_init =
     \<lparr>backpack_best_bid = None, backpack_best_ask = None, backpack_ready = False,
      lighter_best_bid = None, lighter_best_ask = None, lighter_ready = False\<rparr>"

definition update_backpack_bbo :: "decimal \<Rightarrow> decimal \<Rightarrow> OrderBookManager \<Rightarrow> OrderBookManager" where
  "update_backpack_bbo best_bid best_ask self =
     self\<lparr>backpack_best_bid := Some best_bid, backpack_best_ask := Some best_ask,
          backpack_ready := True\<rparr>"

definition update_lighter_bbo :: "decimal \<Rightarrow> decimal \<Rightarrow> OrderBookManager \<Rightarrow> OrderBookManager" where
  "update_lighter_bbo best_bid best_ask self =
     self\<lparr>lighter_best_bid := Some best_bid, lighter_best_ask := Some best_ask,
          lighter_ready := True\<rparr>"

definition is_ready :: "OrderBookManager \<Rightarrow> bool" where
  "is_ready self = (backpack_ready self \<and> lighter_ready self)"

definition get_spread :: "OrderBookManager \<Rightarrow> decimal option \<times> decimal option" where
  "get_spread self =
     (if \<not> is_ready self then (None, None)
      else if truthy (lighter_best_bid self) \<and> truthy (backpack_best_ask self) \<and>
              truthy (backpack_best_bid self) \<and> truthy (lighter_best_ask self)
      then (Some (dec_sub (the (lighter_best_bid self)) (the (backpack_best_ask self))),
            Some (dec_sub (the (backpack_best_bid self)) (the (lighter_best_ask self))))
      else (None, None))"

section \<open>strategy/data_logger.py: the trade rows\<close>

record trade_row =
  row_direction :: string
  row_quantity :: decimal
  row_backpack_side :: string
  row_backpack_price :: decimal
  row_lighter_side :: string
  row_lighter_price :: decimal
  row_spread_captured :: decimal
  row_pnl_estimate :: decimal

text \<open>
  \<^verbatim>\<open>log_trade\<close> appends one row to the trades file. Its body runs under its own
  \<^verbatim>\<open>try/except Exception\<close>: a missing price makes the subtraction raise
  \<^verbatim>\<open>TypeError\<close>, which is logged, and no row is written. It never raises.
\<close>

definition log_trade ::
  "string \<Rightarrow> decimal \<Rightarrow> string \<Rightarrow> decimal option \<Rightarrow> string \<Rightarrow> decimal option \<Rightarrow>
   trade_row list \<Rightarrow> trade_row list" where
  "log_trade direction quantity backpack_side backpack_price lighter_side lighter_price rows =
     (case (backpack_price, lighter_price) of
        (Some bp, Some lt) \<Rightarrow>
          (let spread_captured = (if direction = ''LONG_BACKPACK'' then dec_sub lt bp else dec_sub bp lt);
               pnl_estimate = dec_mul spread_captured quantity
           in rows @ [\<lparr>row_direction = direction, row_quantity = quantity,
                        row_backpack_side = backpack_side, row_backpack_price = bp,
                        row_lighter_side = lighter_side, row_lighter_price = lt,
                        row_spread_captured = spread_captured,
                        row_pnl_estimate = pnl_estimate\<rparr>])
      | _ \<Rightarrow> rows)"

section \<open>strategy/backpack_lighter_arb.py\<close>

record BackpackLighterArb =
  order_quantity :: decimal
  long_threshold :: decimal
  short_threshold :: decimal
  max_position :: decimal
  order_book_manager :: OrderBookManager
  position_tracker :: PositionTracker
  trades_csv :: "trade_row list"
  total_trades :: int
  successful_trades :: int
  failed_trades :: int

text \<open>
  A leg is a call \<^verbatim>\<open>place_market_order(quantity, side)\<close> on one client. Under
  \<^verbatim>\<open>asyncio.gather(..., return_exceptions=True)\<close> its outcome is an exception or an
  \<open>OrderResult\<close>; the venue decides which, so a leg is a function of the two arguments.
\<close>

type_synonym leg = "decimal \<Rightarrow> string \<Rightarrow> exn + OrderResult"

definition leg_success :: "exn + OrderResult \<Rightarrow> bool" where
  "leg_success r = (case r of Inl e \<Rightarrow> False | Inr res \<Rightarrow> success res)"

definition order_sides :: "string \<Rightarrow> string \<times> string" where
  "order_sides direction =
     (if direction = ''LONG_BACKPACK'' then (''buy'', ''sell'') else (''sell'', ''buy''))"

definition execute_arbitrage :: "leg \<Rightarrow> leg \<Rightarrow> string \<Rightarrow> BackpackLighterArb \<Rightarrow> BackpackLighterArb" where
  "execute_arbitrage backpack_place lighter_place direction self0 =
     (let self = self0\<lparr>total_trades := total_trades self0 + 1\<rparr>;
          bp_side = fst (order_sides direction);
          lt_side = snd (order_sides direction);
          bp_result = backpack_place (order_quantity self) bp_side;
          lt_result = lighter_place (order_quantity self) lt_side;
          bp_success = leg_success bp_result;
          lt_success = leg_success lt_result
      in if bp_success \<and> lt_success then
           (let self1 = self\<lparr>successful_trades := successful_trades self + 1\<rparr>;
                tracker =
                  (if bp_side = ''buy'' then
                     update_lighter_position (dec_neg (order_quantity self1))
                       (update_backpack_position (order_quantity self1) (position_tracker self1))
                   else
                     update_lighter_position (order_quantity self1)
                       (update_backpack_position (dec_neg (order_quantity self1))
                          (position_tracker self1)));
                self2 = self1\<lparr>position_tracker := tracker\<rparr>;
                bp_price = (case bp_result of Inr r \<Rightarrow> py_or (avg_price r) (price r) | Inl e \<Rightarrow> None);
                lt_price = (case lt_result of Inr r \<Rightarrow> py_or (avg_price r) (price r) | Inl e \<Rightarrow> None)
            in self2\<lparr>trades_csv :=
                 log_trade direction (order_quantity self2) bp_side bp_price lt_side lt_price
                   (trades_csv self2)\<rparr>)
         else self\<lparr>failed_trades := failed_trades self + 1\<rparr>)"

definition can_trade :: "string \<Rightarrow> BackpackLighterArb \<Rightarrow> bool" where
  "can_trade direction self =
     (if max_position self = 0 then True
      else
        (let bp_pos = get_backpack_position (position_tracker self);
             lt_pos = get_lighter_position (position_tracker self)
         in if direction = ''LONG_BACKPACK''
            then dec_add bp_pos (order_quantity self) \<le> max_position self
            else dec_abs (dec_sub bp_pos (order_quantity self)) \<le> max_position self))"

text \<open>
  What the trading loop reads of a venue's WebSocket manager: its published best bid and
  ask and its readiness flag. Both managers have these three fields.
\<close>

record WebSocketQuote =
  best_bid :: "decimal option"
  best_ask :: "decimal option"
  order_book_ready :: bool

text \<open>
  \<^verbatim>\<open>_update_order_books\<close>: a client whose \<^verbatim>\<open>ws_manager\<close> is \<^verbatim>\<open>None\<close> is
  skipped, and a quote is copied only when both of its sides are truthy.
\<close>

definition update_order_books ::
  "'a WebSocketQuote_scheme option \<Rightarrow> 'b WebSocketQuote_scheme option \<Rightarrow>
   OrderBookManager \<Rightarrow> OrderBookManager" where
  "update_order_books bp_ws lt_ws obm =
     (let obm1 =
            (case bp_ws of
               None \<Rightarrow> obm
             | Some ws \<Rightarrow>
                 if truthy (best_bid ws) \<and> truthy (best_ask ws)
                 then update_backpack_bbo (the (best_bid ws)) (the (best_ask ws)) obm
                 else obm)
      in case lt_ws of
           None \<Rightarrow> obm1
         | Some ws \<Rightarrow>
             if truthy (best_bid ws) \<and> truthy (best_ask ws)
             then update_lighter_bbo (the (best_bid ws)) (the (best_ask ws)) obm1
             else obm1)"

text \<open>The signal of one tick (\<^verbatim>\<open>trading_loop\<close>, "Determine signal").\<close>

definition determine_signal ::
  "decimal option \<Rightarrow> decimal option \<Rightarrow> decimal \<Rightarrow> decimal \<Rightarrow> string" where
  "determine_signal long_spread short_spread long_thr short_thr =
     (if truthy long_spread \<and> the long_spread > long_thr then ''LONG_BACKPACK''
      else if truthy short_spread \<and> the short_spread > short_thr then ''SHORT_BACKPACK''
      else ''NONE'')"

text \<open>
  One iteration of the main loop of \<^verbatim>\<open>trading_loop\<close>: the quotes are pulled from the
  two managers; a manager that is not ready ends the tick (\<^verbatim>\<open>continue\<close>); otherwise the
  spreads give the signal, and a signal whose direction passes \<^verbatim>\<open>_can_trade\<close> is
  executed. The periodic quote row and the sleeps change nothing of the bot's state.
\<close>

definition trading_tick ::
  "'a WebSocketQuote_scheme option \<Rightarrow> 'b WebSocketQuote_scheme option \<Rightarrow> leg \<Rightarrow> leg \<Rightarrow>
   BackpackLighterArb \<Rightarrow> BackpackLighterArb" where
  "trading_tick bp_ws lt_ws backpack_place lighter_place self0 =
     (let self = self0\<lparr>order_book_manager :=
                   update_order_books bp_ws lt_ws (order_book_manager self0)\<rparr>
      in if \<not> is_ready (order_book_manager self) then self
         else
           (let long_spread = fst (get_spread (order_book_manager self));
                short_spread = snd (get_spread (order_book_manager self));
                signal = determine_signal long_spread short_spread
                           (long_threshold self) (short_threshold self)
            in if signal = ''LONG_BACKPACK'' \<and> can_trade ''LONG_BACKPACK'' self
               then execute_arbitrage backpack_place lighter_place ''LONG_BACKPACK'' self
               else if signal = ''SHORT_BACKPACK'' \<and> can_trade ''SHORT_BACKPACK'' self
               then execute_arbitrage backpack_place lighter_place ''SHORT_BACKPACK'' self
               else self))"

section \<open>exchanges/lighter.py: the order book of LighterWebSocketManager\<close>

text \<open>
  The book keeps, per side, a dictionary from price to size; both are Python floats. A
  dictionary is an association list with distinct keys in insertion order. An entry of
  an update that lacks a field or does not parse raises inside the loop body, is logged
  and skipped: it is \<open>None\<close> here. A level counts as liquid when the float product
  of its size and its price is at least 10000.
\<close>

type_synonym book_side = "(pyfloat \<times> pyfloat) list"

record LighterWebSocketManager = WebSocketQuote +
  bids :: book_side
  asks :: book_side
  snapshot_loaded :: bool
  order_book_offset :: "int option"

fun update_order_book :: "(pyfloat \<times> pyfloat) option list \<Rightarrow> book_side \<Rightarrow> book_side" where
  "update_order_book [] ob = ob"
| "update_order_book (None # updates) ob = update_order_book updates ob"
| "update_order_book (Some (p, s) # updates) ob =
     update_order_book updates (if s = 0 then AList.delete p ob else AList.update p s ob)"

text \<open>
  \<^verbatim>\<open>max(levels, key=...)\<close> and \<^verbatim>\<open>min(levels, key=...)\<close> on a non-empty list: the
  first element with the greatest (least) key.
\<close>

fun py_max_key :: "('a \<Rightarrow> 'k::linorder) \<Rightarrow> 'a \<Rightarrow> 'a list \<Rightarrow> 'a" where
  "py_max_key key b [] = b"
| "py_max_key key b (x # xs) = py_max_key key (if key b < key x then x else b) xs"

fun py_min_key :: "('a \<Rightarrow> 'k::linorder) \<Rightarrow> 'a \<Rightarrow> 'a list \<Rightarrow> 'a" where
  "py_min_key key b [] = b"
| "py_min_key key b (x # xs) = py_min_key key (if key x < key b then x else b) xs"

definition liquid_levels :: "book_side \<Rightarrow> book_side" where
  "liquid_levels ob = filter (\<lambda>(p, s). float_mul s p \<ge> 10000) ob"

definition get_best_levels ::
  "'a LighterWebSocketManager_scheme \<Rightarrow> decimal option \<times> decimal option" where
  "get_best_levels self =
     (let bb = (if bids self \<noteq> [] then
                  (case liquid_levels (bids self) of
                     [] \<Rightarrow> None
                   | l # ls \<Rightarrow> Some (fst (py_max_key fst l ls)))
                else None);
          ba = (if asks self \<noteq> [] then
                  (case liquid_levels (asks self) of
                     [] \<Rightarrow> None
                   | l # ls \<Rightarrow> Some (fst (py_min_key fst l ls)))
                else None)
      in (bb, ba))"

datatype lighter_msg =
    SubscribedOrderBook "int option" "(pyfloat \<times> pyfloat) option list"
      "(pyfloat \<times> pyfloat) option list"
  | UpdateOrderBook "(pyfloat \<times> pyfloat) option list" "(pyfloat \<times> pyfloat) option list"
  | UpdateAccountOrders
  | Ping
  | OtherMessage string

definition handle_message ::
  "lighter_msg \<Rightarrow> 'a LighterWebSocketManager_scheme \<Rightarrow> 'a LighterWebSocketManager_scheme" where
  "handle_message msg self =
     (case msg of
        SubscribedOrderBook off bs as \<Rightarrow>
          self\<lparr>bids := update_order_book bs [], asks := update_order_book as [],
               order_book_offset := (case off of None \<Rightarrow> order_book_offset self | Some k \<Rightarrow> Some k),
               snapshot_loaded := True\<rparr>
      | UpdateOrderBook bs as \<Rightarrow>
          if snapshot_loaded self then
            (let self1 = self\<lparr>bids := update_order_book bs (bids self),
                              asks := update_order_book as (asks self)\<rparr>;
                 bb = fst (get_best_levels self1);
                 ba = snd (get_best_levels self1);
                 self2 = (if truthy bb then self1\<lparr>best_bid := bb\<rparr> else self1);
                 self3 = (if truthy ba then self2\<lparr>best_ask := ba\<rparr> else self2)
             in if \<not> order_book_ready self3 \<and> truthy (best_bid self3) \<and> truthy (best_ask self3)
                then self3\<lparr>order_book_ready := True\<rparr>
                else self3)
          else self
      | UpdateAccountOrders \<Rightarrow> self
      | Ping \<Rightarrow> self
      | OtherMessage t \<Rightarrow> self)"

section \<open>The reconnect loops of the two WebSocket managers\<close>

text \<open>
  One iteration of \<^verbatim>\<open>while True\<close> in \<^verbatim>\<open>connect\<close> ends in one of four ways:
  the connection attempt raises; the connection is made (which sets \<^verbatim>\<open>running\<close>) and
  a subscription raises before the delay is reset; the session is established (delay
  reset to 1) and later ends by closure or error; or the session is established and
  ended by \<^verbatim>\<open>disconnect\<close>, which clears \<^verbatim>\<open>running\<close>. After the \<^verbatim>\<open>try\<close> block the
  loop sleeps \<^verbatim>\<open>reconnect_delay\<close> and doubles it up to the cap, under
  \<^verbatim>\<open>if self.running\<close>. The sleeps are recorded in order.
\<close>

datatype conn_event = ConnectFailed | SubscribeFailed | SessionEnded | SessionDisconnected

record reconnect_state =
  running :: bool
  reconnect_delay :: nat
  slept :: "nat list"

definition max_reconnect_delay :: nat where
  "max_reconnect_delay = 30"

text \<open>A manager as \<^verbatim>\<open>__init__\<close> leaves it, entering \<^verbatim>\<open>connect\<close>.\<close>

definition connect_start :: reconnect_state where
  "connect_start = \<lparr>running = False, reconnect_delay = 1, slept = []\<rparr>"

definition backoff_sleep :: "reconnect_state \<Rightarrow> reconnect_state" where
  "backoff_sleep s =
     (if running s then
        s\<lparr>slept := slept s @ [reconnect_delay s],
          reconnect_delay := min (reconnect_delay s * 2) max_reconnect_delay\<rparr>
      else s)"

definition backpack_connect_iter :: "conn_event \<Rightarrow> reconnect_state \<Rightarrow> reconnect_state" where
  "backpack_connect_iter ev s =
     backoff_sleep
       (case ev of
          ConnectFailed \<Rightarrow> s
        | SubscribeFailed \<Rightarrow> s\<lparr>running := True\<rparr>
        | SessionEnded \<Rightarrow> s\<lparr>running := True, reconnect_delay := 1\<rparr>
        | SessionDisconnected \<Rightarrow> s\<lparr>running := False, reconnect_delay := 1\<rparr>)"

definition lighter_connect_iter :: "conn_event \<Rightarrow> reconnect_state \<Rightarrow> reconnect_state" where
  "lighter_connect_iter ev s =
     backoff_sleep
       (case ev of
          ConnectFailed \<Rightarrow> s
        | SubscribeFailed \<Rightarrow> s\<lparr>running := True\<rparr>
        | SessionEnded \<Rightarrow> s\<lparr>running := True, reconnect_delay := 1\<rparr>
        | SessionDisconnected \<Rightarrow> s\<lparr>running := False, reconnect_delay := 1\<rparr>)"

primrec backpack_connect :: "conn_event list \<Rightarrow> reconnect_state \<Rightarrow> reconnect_state" where
  "backpack_connect [] s = s"
| "backpack_connect (ev # evs) s = backpack_connect evs (backpack_connect_iter ev s)"

primrec lighter_connect :: "conn_event list \<Rightarrow> reconnect_state \<Rightarrow> reconnect_state" where
  "lighter_connect [] s = s"
| "lighter_connect (ev # evs) s = lighter_connect evs (lighter_connect_iter ev s)"

section \<open>exchanges/base.py: the retry decorator\<close>

text \<open>
  \<^verbatim>\<open>query_retry\<close> configures the \<^verbatim>\<open>retry\<close> decorator of the tenacity library with
  \<^verbatim>\<open>stop_after_attempt\<close>, \<^verbatim>\<open>wait_exponential\<close>, \<^verbatim>\<open>retry_if_exception_type\<close> and a
  \<^verbatim>\<open>retry_error_callback\<close> that returns \<^verbatim>\<open>default_return\<close>.
\<close>

record 'a retry_policy =
  stop_after_attempt :: nat
  wait_min :: rat
  wait_max :: rat
  retry_if_exception_type :: "string list"
  retry_error_callback :: "'a option"
  reraise :: bool

text \<open>
  \<^verbatim>\<open>isinstance(e, exception_type)\<close>: a class of the tuple is the exception's class, or
  the root class \<^verbatim>\<open>Exception\<close>.
\<close>

definition isinstance_exn :: "exn \<Rightarrow> string list \<Rightarrow> bool" where
  "isinstance_exn e types = (''Exception'' \<in> set types \<or> exn_class e \<in> set types)"

text \<open>\<^verbatim>\<open>wait_exponential(multiplier=1, min, max)\<close> after the given attempt.\<close>

definition wait_exponential :: "rat \<Rightarrow> rat \<Rightarrow> nat \<Rightarrow> rat" where
  "wait_exponential mn mx attempt_number =
     max (max 0 mn) (min (1 * 2 ^ (attempt_number - 1)) mx)"

text \<open>
  Modelled from the spec: the retry loop itself, which is the tenacity library's and not
  among the sources. Section 4.2 (RetryPolicy): attempt the operation up to
  \<open>maxAttempts\<close> times; between attempts sleep an exponentially increasing delay
  bounded by the two backoffs; only exceptions of the retryable kinds are retried, all
  others propagate at once; on exhausting the attempts return the caller's default
  value, or re-raise the last error, per configuration.

  The operation is given by the outcome of each of its invocations, numbered from 1.
  The result is the outcome of the wrapped call, the number of invocations made and the
  sleeps taken between them.
\<close>

function retry_call ::
  "'a retry_policy \<Rightarrow> (nat \<Rightarrow> exn + 'a) \<Rightarrow> nat \<Rightarrow> rat list \<Rightarrow> (exn + 'a) \<times> nat \<times> rat list" where
  "retry_call pol operation attempt_number waits =
     (case operation attempt_number of
        Inr v \<Rightarrow> (Inr v, attempt_number, waits)
      | Inl e \<Rightarrow>
          if \<not> isinstance_exn e (retry_if_exception_type pol)
          then (Inl e, attempt_number, waits)
          else if stop_after_attempt pol \<le> attempt_number
          then (case retry_error_callback pol of
                  Some d \<Rightarrow> (Inr d, attempt_number, waits)
                | None \<Rightarrow>
                    (Inl (if reraise pol then e else Exn ''RetryError'' (exn_msg e)),
                     attempt_number, waits))
          else retry_call pol operation (Suc attempt_number)
                 (waits @ [wait_exponential (wait_min pol) (wait_max pol) attempt_number]))"
  by pat_completeness auto
termination
  by (relation "measure (\<lambda>(pol, operation, n, waits). stop_after_attempt pol - n)") auto

declare retry_call.simps [simp del]

definition query_retry ::
  "'a \<Rightarrow> string list \<Rightarrow> nat \<Rightarrow> rat \<Rightarrow> rat \<Rightarrow> bool \<Rightarrow> (nat \<Rightarrow> exn + 'a) \<Rightarrow>
   (exn + 'a) \<times> nat \<times> rat list" where
  "query_retry default_return exception_type max_attempts min_wait max_wait reraise_flag operation =
     retry_call
       \<lparr>stop_after_attempt = max_attempts, wait_min = min_wait, wait_max = max_wait,
        retry_if_exception_type = exception_type,
        retry_error_callback = Some default_return, reraise = reraise_flag\<rparr>
       operation 1 []"

text \<open>
  \<^verbatim>\<open>@query_retry(default_return=d)\<close>: every other parameter at its default
  (\<^verbatim>\<open>(Exception,)\<close>, 5 attempts, waits between 1 and 10, no re-raise).
\<close>

definition query_retry_defaults :: "'a \<Rightarrow> (nat \<Rightarrow> exn + 'a) \<Rightarrow> (exn + 'a) \<times> nat \<times> rat list" where
  "query_retry_defaults default_return operation =
     query_retry default_return [''Exception''] 5 1 10 False operation"

section \<open>The decorated queries of the two clients\<close>

text \<open>
  Each query is its undecorated body under \<^verbatim>\<open>query_retry\<close>. The body reads the
  outside world (the WebSocket manager, a REST answer), which may differ from one
  attempt to the next: the decorated function takes what the k-th attempt observes.
\<close>

definition lighter_fetch_bbo_prices_body ::
  "'a WebSocketQuote_scheme option \<Rightarrow> exn + decimal \<times> decimal" where
  "lighter_fetch_bbo_prices_body ws_manager =
     (case ws_manager of
        None \<Rightarrow> Inl (Exn ''ValueError'' ''WebSocket not ready'')
      | Some ws \<Rightarrow>
          if order_book_ready ws \<and> truthy (best_bid ws) \<and> truthy (best_ask ws)
          then Inr (the (best_bid ws), the (best_ask ws))
          else Inl (Exn ''ValueError'' ''WebSocket not ready''))"

definition lighter_fetch_bbo_prices ::
  "(nat \<Rightarrow> 'a WebSocketQuote_scheme option) \<Rightarrow> (exn + decimal \<times> decimal) \<times> nat \<times> rat list" where
  "lighter_fetch_bbo_prices ws_at =
     query_retry_defaults (0, 0) (\<lambda>k. lighter_fetch_bbo_prices_body (ws_at k))"

text \<open>
  Backpack falls back to the REST depth: the answer is an exception (also for a price
  that does not parse) or the bid and ask prices; the best bid is the first of the bids
  sorted downwards, the best ask the first of the asks sorted upwards, 0 for an empty
  side.
\<close>

definition backpack_fetch_bbo_prices_body ::
  "'a WebSocketQuote_scheme option \<Rightarrow> exn + decimal list \<times> decimal list \<Rightarrow>
   exn + decimal \<times> decimal" where
  "backpack_fetch_bbo_prices_body ws_manager depth =
     (if (case ws_manager of
            None \<Rightarrow> False
          | Some ws \<Rightarrow> order_book_ready ws \<and> truthy (best_bid ws) \<and> truthy (best_ask ws))
      then Inr (the (best_bid (the ws_manager)), the (best_ask (the ws_manager)))
      else
        (case depth of
           Inl e \<Rightarrow> Inl e
         | Inr (bid_prices, ask_prices) \<Rightarrow>
             Inr ((case bid_prices of [] \<Rightarrow> 0 | b # bs \<Rightarrow> fold max bs b),
                  (case ask_prices of [] \<Rightarrow> 0 | a # as \<Rightarrow> fold min as a))))"

definition backpack_fetch_bbo_prices ::
  "(nat \<Rightarrow> 'a WebSocketQuote_scheme option) \<Rightarrow> (nat \<Rightarrow> exn + decimal list \<times> decimal list) \<Rightarrow>
   (exn + decimal \<times> decimal) \<times> nat \<times> rat list" where
  "backpack_fetch_bbo_prices ws_at depth_at =
     query_retry_defaults (0, 0) (\<lambda>k. backpack_fetch_bbo_prices_body (ws_at k) (depth_at k))"

text \<open>
  \<^verbatim>\<open>get_position\<close> on Backpack: the open positions are an exception or a list of
  (symbol, net quantity), the net quantity itself an exception when it does not parse;
  the first entry of the contract decides, and no entry means 0.
\<close>

definition backpack_get_position_body ::
  "string \<Rightarrow> exn + (string \<times> (exn + decimal)) list \<Rightarrow> exn + decimal" where
  "backpack_get_position_body contract_id positions_data =
     (case positions_data of
        Inl e \<Rightarrow> Inl e
      | Inr ps \<Rightarrow>
          (case find (\<lambda>(symbol, q). symbol = contract_id) ps of
             Some (symbol, q) \<Rightarrow> q
           | None \<Rightarrow> Inr 0))"

definition backpack_get_position ::
  "string \<Rightarrow> (nat \<Rightarrow> exn + (string \<times> (exn + decimal)) list) \<Rightarrow>
   (exn + decimal) \<times> nat \<times> rat list" where
  "backpack_get_position contract_id positions_at =
     query_retry_defaults 0 (\<lambda>k. backpack_get_position_body contract_id (positions_at k))"

text \<open>
  \<^verbatim>\<open>get_position\<close> on Lighter: the answer is an exception (transport, HTTP status, a
  field that is missing) or the accounts, \<open>None\<close> when the key is absent; the first
  account's positions are (symbol, position, sign).
\<close>

definition lighter_get_position_body ::
  "string \<Rightarrow> exn + (string \<times> decimal \<times> decimal) list list option \<Rightarrow> exn + decimal" where
  "lighter_get_position_body ticker response =
     (case response of
        Inl e \<Rightarrow> Inl e
      | Inr None \<Rightarrow> Inr 0
      | Inr (Some []) \<Rightarrow> Inr 0
      | Inr (Some (positions # accounts)) \<Rightarrow>
          (case find (\<lambda>(symbol, pos, sign). symbol = ticker) positions of
             Some (symbol, pos, sign) \<Rightarrow> Inr (dec_mul pos sign)
           | None \<Rightarrow> Inr 0))"

definition lighter_get_position ::
  "string \<Rightarrow> (nat \<Rightarrow> exn + (string \<times> decimal \<times> decimal) list list option) \<Rightarrow>
   (exn + decimal) \<times> nat \<times> rat list" where
  "lighter_get_position ticker response_at =
     query_retry_defaults 0 (\<lambda>k. lighter_get_position_body ticker (response_at k))"

section \<open>Market orders on the two clients\<close>

text \<open>
  A failure result: \<^verbatim>\<open>OrderResult(success=False, error_message=msg)\<close>.
\<close>

definition order_failed :: "string \<Rightarrow> OrderResult" where
  "order_failed msg = (OrderResult_init False)\<lparr>error_message := Some msg\<rparr>"

text \<open>
  The body of a function under \<^verbatim>\<open>try: ... except Exception as e: return
  OrderResult(success=False, error_message=str(e))\<close>.
\<close>

definition except_to_result :: "exn + OrderResult \<Rightarrow> exn + OrderResult" where
  "except_to_result body =
     (case body of Inl e \<Rightarrow> Inr (order_failed (exn_msg e)) | Inr r \<Rightarrow> Inr r)"

text \<open>
  A value of the venue's JSON answer: text, a value that \<^verbatim>\<open>Decimal\<close> reads as a
  number (a number or numeric text), or null. The answer of \<^verbatim>\<open>execute_order\<close> is a
  dictionary of such values, or nothing.
\<close>

datatype jval = JStr string | JDec decimal | JNull

type_synonym jdict = "(string \<times> jval) list"

definition to_decimal :: "jval option \<Rightarrow> exn + decimal" where
  "to_decimal v =
     (case v of
        None \<Rightarrow> Inr 0
      | Some (JDec d) \<Rightarrow> Inr d
      | Some (JStr t) \<Rightarrow> Inl (Exn ''InvalidOperation'' t)
      | Some JNull \<Rightarrow> Inl (Exn ''TypeError'' ''conversion from NoneType to Decimal''))"

definition status_upper :: "jval option \<Rightarrow> exn + string" where
  "status_upper v =
     (case v of
        None \<Rightarrow> Inr []
      | Some (JStr t) \<Rightarrow> Inr (upper t)
      | Some other \<Rightarrow> Inl (Exn ''AttributeError'' ''upper''))"

definition as_text :: "jval option \<Rightarrow> string option" where
  "as_text v = (case v of Some (JStr t) \<Rightarrow> Some t | other \<Rightarrow> None)"

text \<open>
  \<^verbatim>\<open>BackpackClient.place_market_order\<close>. The venue is the function
  \<open>execute_order\<close> of the symbol, the side (\<^verbatim>\<open>Bid\<close> or \<^verbatim>\<open>Ask\<close>) and the quantity.
\<close>

definition backpack_place_market_order_try ::
  "(string \<Rightarrow> string \<Rightarrow> decimal \<Rightarrow> exn + jdict option) \<Rightarrow> string \<Rightarrow> decimal \<Rightarrow> string \<Rightarrow>
   exn + OrderResult" where
  "backpack_place_market_order_try execute_order contract_id quantity side_arg =
     (if lower side_arg \<noteq> ''buy'' \<and> lower side_arg \<noteq> ''sell''
      then Inr (order_failed (''Invalid side: '' @ side_arg))
      else
        (let order_side = (if lower side_arg = ''buy'' then ''Bid'' else ''Ask'')
         in case execute_order contract_id order_side quantity of
              Inl e \<Rightarrow> Inl e
            | Inr None \<Rightarrow> Inr (order_failed ''No response from API'')
            | Inr (Some []) \<Rightarrow> Inr (order_failed ''No response from API'')
            | Inr (Some result) \<Rightarrow>
                if ''code'' \<in> fst ` set result
                then Inr ((OrderResult_init False)
                       \<lparr>error_message :=
                          (case map_of result ''message'' of
                             None \<Rightarrow> Some ''Unknown error'' | Some m \<Rightarrow> as_text (Some m))\<rparr>)
                else
                  (case status_upper (map_of result ''status'') of
                     Inl e \<Rightarrow> Inl e
                   | Inr order_status \<Rightarrow>
                       if order_status = ''FILLED'' then
                         (case to_decimal (map_of result ''executedQuantity'') of
                            Inl e \<Rightarrow> Inl e
                          | Inr executed_qty \<Rightarrow>
                              (case to_decimal (map_of result ''executedQuoteQuantity'') of
                                 Inl e \<Rightarrow> Inl e
                               | Inr executed_quote \<Rightarrow>
                                   (let avg = (if executed_qty > 0
                                               then dec_div executed_quote executed_qty else 0)
                                    in Inr \<lparr>success = True,
                                            order_id = as_text (map_of result ''id''),
                                            side = Some (lower side_arg),
                                            size' = Some quantity,
                                            price = Some avg,
                                            status = Some ''FILLED'',
                                            error_message = None,
                                            filled_size = Some executed_qty,
                                            avg_price = Some avg\<rparr>)))
                       else Inr ((order_failed (''Order not filled, status: '' @ order_status))
                              \<lparr>order_id := as_text (map_of result ''id'')\<rparr>))))"

definition backpack_place_market_order ::
  "(string \<Rightarrow> string \<Rightarrow> decimal \<Rightarrow> exn + jdict option) \<Rightarrow> string \<Rightarrow> decimal \<Rightarrow> string \<Rightarrow>
   exn + OrderResult" where
  "backpack_place_market_order execute_order contract_id quantity side_arg =
     except_to_result (backpack_place_market_order_try execute_order contract_id quantity side_arg)"

text \<open>\<^verbatim>\<open>int(d)\<close> on a decimal truncates towards zero; \<^verbatim>\<open>str(n)\<close> on a natural number.\<close>

definition py_int :: "decimal \<Rightarrow> int" where
  "py_int d = (if 0 \<le> d then \<lfloor>d\<rfloor> else \<lceil>d\<rceil>)"

function str_nat :: "nat \<Rightarrow> string" where
  "str_nat n =
     (if n < 10 then [''0123456789'' ! n]
      else str_nat (n div 10) @ [''0123456789'' ! (n mod 10)])"
  by pat_completeness auto
termination
  by (relation "measure id") auto

declare str_nat.simps [simp del]

text \<open>
  \<^verbatim>\<open>LighterClient.place_market_order\<close>: a limit order priced 0.2 percent through the
  quote that \<^verbatim>\<open>fetch_bbo_prices\<close> returns. The signer client is present or is
  initialised first (which may raise); the two multipliers are \<^verbatim>\<open>None\<close> until the
  contract is resolved; the order index is the clock in milliseconds modulo one
  million; the venue is the function \<open>create_order\<close> of the index, the base amount, the
  price and the side, answering with an exception or with the error field of its
  triple. After an answer without error the function sleeps two seconds and returns.
\<close>

definition lighter_place_market_order_try ::
  "bool \<Rightarrow> exn option \<Rightarrow> (nat \<Rightarrow> 'a WebSocketQuote_scheme option) \<Rightarrow> int option \<Rightarrow> int option \<Rightarrow>
   nat \<Rightarrow> (nat \<Rightarrow> int \<Rightarrow> int \<Rightarrow> bool \<Rightarrow> exn + string option) \<Rightarrow> decimal \<Rightarrow> string \<Rightarrow>
   exn + OrderResult" where
  "lighter_place_market_order_try has_client initialize ws_at base_amount_multiplier
       price_multiplier now_ms create_order quantity side_arg =
     (case (if has_client then None else initialize) of
        Some e \<Rightarrow> Inl e
      | None \<Rightarrow>
          (case fst (lighter_fetch_bbo_prices ws_at) of
             Inl e \<Rightarrow> Inl e
           | Inr (bid, ask) \<Rightarrow>
               if lower side_arg \<noteq> ''buy'' \<and> lower side_arg \<noteq> ''sell''
               then Inr (order_failed (''Invalid side: '' @ side_arg))
               else
                 (let is_ask = (lower side_arg \<noteq> ''buy'');
                      limit = (if is_ask then dec_mul bid (998 / 1000)
                               else dec_mul ask (1002 / 1000));
                      client_order_index = now_ms mod 1000000
                  in case (base_amount_multiplier, price_multiplier) of
                       (Some bm, Some pm) \<Rightarrow>
                         (case create_order client_order_index
                                 (py_int (dec_mul quantity (of_int bm)))
                                 (py_int (dec_mul limit (of_int pm))) is_ask of
                            Inl e \<Rightarrow> Inl e
                          | Inr (Some err) \<Rightarrow>
                              Inr (order_failed (''Order creation error: '' @ err))
                          | Inr None \<Rightarrow>
                              Inr \<lparr>success = True,
                                   order_id = Some (str_nat client_order_index),
                                   side = Some (lower side_arg),
                                   size' = Some quantity,
                                   price = Some limit,
                                   status = Some ''FILLED'',
                                   error_message = None,
                                   filled_size = Some quantity,
                                   avg_price = Some limit\<rparr>)
                     | other \<Rightarrow> Inl (Exn ''TypeError'' ''unsupported operand type(s) for *''))))"

definition lighter_place_market_order ::
  "bool \<Rightarrow> exn option \<Rightarrow> (nat \<Rightarrow> 'a WebSocketQuote_scheme option) \<Rightarrow> int option \<Rightarrow> int option \<Rightarrow>
   nat \<Rightarrow> (nat \<Rightarrow> int \<Rightarrow> int \<Rightarrow> bool \<Rightarrow> exn + string option) \<Rightarrow> decimal \<Rightarrow> string \<Rightarrow>
   exn + OrderResult" where
  "lighter_place_market_order has_client initialize ws_at base_amount_multiplier
       price_multiplier now_ms create_order quantity side_arg =
     except_to_result
       (lighter_place_market_order_try has_client initialize ws_at base_amount_multiplier
          price_multiplier now_ms create_order quantity side_arg)"

section \<open>Joint outcomes and sequences of executions\<close>

text \<open>
  The joint outcome \<^verbatim>\<open>bp_success and lt_success\<close> of one invocation of
  \<^verbatim>\<open>_execute_arbitrage\<close>: each leg, called with the order quantity and the side the
  direction gives it, returned a result whose \<open>success\<close> is true.
\<close>

definition both_succeeded :: "leg \<Rightarrow> leg \<Rightarrow> string \<Rightarrow> BackpackLighterArb \<Rightarrow> bool" where
  "both_succeeded backpack_place lighter_place direction self =
     (leg_success (backpack_place (order_quantity self) (fst (order_sides direction))) \<and>
      leg_success (lighter_place (order_quantity self) (snd (order_sides direction))))"

text \<open>
  A sequence of invocations, each with the venues' behaviour at that moment and a
  direction, and the sequences whose every invocation succeeds jointly.
\<close>

fun execute_all :: "(leg \<times> leg \<times> string) list \<Rightarrow> BackpackLighterArb \<Rightarrow> BackpackLighterArb" where
  "execute_all [] self = self"
| "execute_all ((bp, lt, d) # rest) self = execute_all rest (execute_arbitrage bp lt d self)"

section \<open>Concrete venues and a concrete bot\<close>

text \<open>
  A venue that fills every order at 100, one that rejects every order, one whose call
  raises; and a bot of order size 0.05 and position cap 0.1 that holds 0.05 on Backpack
  against -0.05 on Lighter.
\<close>

definition filled_result :: "decimal \<Rightarrow> string \<Rightarrow> OrderResult" where
  "filled_result q sd =
     (OrderResult_init True)\<lparr>side := Some sd, size' := Some q, price := Some 100,
        status := Some ''FILLED'', filled_size := Some q, avg_price := Some 100\<rparr>"

definition filled_leg :: leg where
  "filled_leg q sd = Inr (filled_result q sd)"

definition rejected_result :: OrderResult where
  "rejected_result = (OrderResult_init False)\<lparr>error_message := Some ''rejected''\<rparr>"

definition rejecting_leg :: leg where
  "rejecting_leg q sd = Inr rejected_result"

definition raising_leg :: leg where
  "raising_leg q sd = Inl (Exn ''ConnectionError'' ''timeout'')"

definition example_bot :: BackpackLighterArb where
  "example_bot =
     \<lparr>order_quantity = 5 / 100, long_threshold = 5, short_threshold = 5, max_position = 1 / 10,
      order_book_manager = OrderBookManager_init,
      position_tracker = \<lparr>backpack_position = 5 / 100, lighter_position = - 5 / 100\<rparr>,
      trades_csv = [], total_trades = 0, successful_trades = 0, failed_trades = 0\<rparr>"

section \<open>Concrete quotes and positions\<close>

text \<open>
  A complete Backpack quote of 100/101 and a Lighter quote whose ask is still missing;
  and the concrete bot holding -1 on Backpack.
\<close>

definition backpack_quote :: WebSocketQuote where
  "backpack_quote = \<lparr>best_bid = Some 100, best_ask = Some 101, order_book_ready = True\<rparr>"

definition lighter_half_quote :: WebSocketQuote where
  "lighter_half_quote = \<lparr>best_bid = Some 106, best_ask = None, order_book_ready = False\<rparr>"

definition short_exposed_bot :: BackpackLighterArb where
  "short_exposed_bot =
     example_bot\<lparr>position_tracker := \<lparr>backpack_position = - 1, lighter_position = 1\<rparr>\<rparr>"

text \<open>No quote held by the manager is zero.\<close>

definition quotes_nonzero :: "OrderBookManager \<Rightarrow> bool" where
  "quotes_nonzero m =
     (backpack_best_bid m \<noteq> Some 0 \<and> backpack_best_ask m \<noteq> Some 0 \<and>
      lighter_best_bid m \<noteq> Some 0 \<and> lighter_best_ask m \<noteq> Some 0)"

section \<open>Concrete feeds and venues\<close>

text \<open>
  A Lighter manager after its snapshot, with two bid levels (notional 20000 and 5050) and
  two ask levels below the liquidity cutoff; a Lighter quote of 106/107; a feed that
  never becomes ready and one that always shows that quote; a REST endpoint that always
  fails; and a venue that accepts every order it is sent.
\<close>

definition example_lighter_ws :: LighterWebSocketManager where
  "example_lighter_ws =
     \<lparr>best_bid = Some 98, best_ask = Some 105, order_book_ready = True,
      bids = [(100, 200), (101, 50)], asks = [(102, 10), (103, 20)],
      snapshot_loaded = True, order_book_offset = None\<rparr>"

definition lighter_quote :: WebSocketQuote where
  "lighter_quote = \<lparr>best_bid = Some 106, best_ask = Some 107, order_book_ready = True\<rparr>"

definition never_ready :: "nat \<Rightarrow> WebSocketQuote option" where
  "never_ready k = None"

definition always_quoted :: "nat \<Rightarrow> WebSocketQuote option" where
  "always_quoted k = Some lighter_quote"

definition failing_rest :: "nat \<Rightarrow> exn + 'a" where
  "failing_rest k = Inl (Exn ''ConnectionError'' ''connection refused'')"

definition accepting_venue :: "nat \<Rightarrow> int \<Rightarrow> int \<Rightarrow> bool \<Rightarrow> exn + string option" where
  "accepting_venue client_order_index base_amount limit_price is_ask = Inr None"

section \<open>The managers and positions the bot can reach\<close>

text \<open>
  The order book manager is created empty and written only by
  \<^verbatim>\<open>_update_order_books\<close>, once per tick, from what the two WebSocket managers show
  at that tick.
\<close>

fun run_updates ::
  "('a WebSocketQuote_scheme option \<times> 'b WebSocketQuote_scheme option) list \<Rightarrow>
   OrderBookManager \<Rightarrow> OrderBookManager" where
  "run_updates [] m = m"
| "run_updates ((bp_ws, lt_ws) # rest) m = run_updates rest (update_order_books bp_ws lt_ws m)"

text \<open>
  The additions of one position update that lose no digit: the negated order quantity
  and the two new positions are the exact results.
\<close>

definition exact_updates :: "string \<Rightarrow> BackpackLighterArb \<Rightarrow> bool" where
  "exact_updates direction self =
     (let q = order_quantity self;
          bp_pos = backpack_position (position_tracker self);
          lt_pos = lighter_position (position_tracker self)
      in dec_exact (- q) \<and>
         (if direction = ''LONG_BACKPACK''
          then dec_exact (bp_pos + q) \<and> dec_exact (lt_pos - q)
          else dec_exact (bp_pos - q) \<and> dec_exact (lt_pos + q)))"

fun all_exact_successes ::
  "(leg \<times> leg \<times> string) list \<Rightarrow> BackpackLighterArb \<Rightarrow> bool" where
  "all_exact_successes [] self = True"
| "all_exact_successes ((bp, lt, d) # rest) self =
     (both_succeeded bp lt d self \<and> exact_updates d self \<and>
      all_exact_successes rest (execute_arbitrage bp lt d self))"

text \<open>
  A bot whose order size has 28 significant digits, holding 1 on Backpack and nothing
  on Lighter; a Backpack quote whose ask has 31 significant digits and a Lighter quote
  of 106.01/107; and a Lighter manager with an empty book after its snapshot, together
  with a bid level of price 0.09999999999999999 and size 100000.
\<close>

definition thirds_bot :: BackpackLighterArb where
  "thirds_bot =
     \<lparr>order_quantity = 3333333333333333333333333333 / 10 ^ 28,
      long_threshold = 5, short_threshold = 5, max_position = 0,
      order_book_manager = OrderBookManager_init,
      position_tracker = \<lparr>backpack_position = 1, lighter_position = 0\<rparr>,
      trades_csv = [], total_trades = 0, successful_trades = 0, failed_trades = 0\<rparr>"

definition long_digits_quote :: WebSocketQuote where
  "long_digits_quote =
     \<lparr>best_bid = Some 100, best_ask = Some (101 + 1 / 10 ^ 28), order_book_ready = True\<rparr>"

definition lighter_quote_above :: WebSocketQuote where
  "lighter_quote_above =
     \<lparr>best_bid = Some (10601 / 100), best_ask = Some 107, order_book_ready = True\<rparr>"

definition empty_lighter_ws :: LighterWebSocketManager where
  "empty_lighter_ws =
     \<lparr>best_bid = Some 98, best_ask = Some 105, order_book_ready = True,
      bids = [], asks = [], snapshot_loaded = True, order_book_offset = None\<rparr>"

definition thin_level :: "pyfloat \<times> pyfloat" where
  "thin_level = (9999999999999999 / 10 ^ 17, 100000)"

section \<open>Results\<close>

subsection \<open>Rounding\<close>

lemma round_sig_zero: "round_sig b prec 0 = 0"
  by (simp add: round_sig_def)

lemma round_sig_minus: "round_sig b prec (- x) = - round_sig b prec x"
  by (simp add: round_sig_def Let_def sgn_minus)

lemma dec_round_zero: "dec_round 0 = 0"
  by (simp add: dec_round_def round_sig_zero)

lemma dec_round_minus: "dec_round (- x) = - dec_round x"
  by (simp add: dec_round_def round_sig_minus)

lemma dec_exact_minus: "dec_exact (- x) = dec_exact x"
  by (simp add: dec_exact_def dec_round_minus)

lemma dec_add_exact: "dec_exact (a + b) \<Longrightarrow> dec_add a b = a + b"
  by (simp add: dec_exact_def dec_add_def)

lemma dec_sub_exact: "dec_exact (a - b) \<Longrightarrow> dec_sub a b = a - b"
  by (simp add: dec_exact_def dec_sub_def)

lemma dec_neg_exact: "dec_exact (- a) \<Longrightarrow> dec_neg a = - a"
  by (simp add: dec_exact_def dec_neg_def)

lemma fl_zero: "fl 0 = 0"
  by (simp add: fl_def round_sig_zero)

lemma float_mul_zero_price: "float_mul s 0 = 0"
  by (simp add: float_mul_def fl_zero)

text \<open>Values of the rounding on the numbers of the examples.\<close>

lemma dec_round_values:
  "dec_round (1 / 20) = 1 / 20"
  "dec_round (1 / 10) = 1 / 10"
  "dec_round (11 / 100) = 11 / 100"
  "dec_round (3 / 20) = 3 / 20"
  "dec_round (19 / 20) = 19 / 20"
  "dec_round (21 / 20) = 21 / 20"
  "dec_round 0 = 0"
  "dec_round 5 = 5"
  "dec_round 7 = 7"
  "dec_round (501 / 100) = 501 / 100"
  "dec_round (53607 / 500) = 53607 / 500"
  by code_simp+

lemma dec_round_thirds:
  "dec_round (3333333333333333333333333333 / 10 ^ 28) = 3333333333333333333333333333 / 10 ^ 28"
  "dec_round (1 + 3333333333333333333333333333 / 10 ^ 28) =
     1333333333333333333333333333 / 10 ^ 27"
  "dec_round (1333333333333333333333333333 / 10 ^ 27 - 3333333333333333333333333333 / 10 ^ 28) =
     9999999999999999999999999997 / 10 ^ 28"
  by code_simp+

lemma dec_round_long_digits:
  "dec_round (10601 / 100 - (101 + 1 / 10 ^ 28)) = 501 / 100"
  by code_simp

lemma float_mul_thin_level: "float_mul 100000 (9999999999999999 / 10 ^ 17) = 10000"
  by code_simp

subsection \<open>The position cache\<close>

text \<open>
  C10. For every pair of outcomes of the two \<^verbatim>\<open>get_position\<close> calls inside
  \<^verbatim>\<open>refresh_positions\<close>: a venue whose fetch raised keeps its cached position, the
  other venue's cache is overwritten with the fetched value, and the function returns
  \<^verbatim>\<open>True\<close> in all four cases.
\<close>

theorem refresh_positions_frame:
  "refresh_positions (Inl e1) (Inl e2) t = (True, t) \<and>
   refresh_positions (Inl e1) (Inr b) t = (True, t\<lparr>lighter_position := b\<rparr>) \<and>
   refresh_positions (Inr a) (Inl e2) t = (True, t\<lparr>backpack_position := a\<rparr>) \<and>
   refresh_positions (Inr a) (Inr b) t = (True, \<lparr>backpack_position = a, lighter_position = b\<rparr>) \<and>
   backpack_position (t\<lparr>lighter_position := b\<rparr>) = backpack_position t \<and>
   lighter_position (t\<lparr>backpack_position := a\<rparr>) = lighter_position t"
  by (simp add: refresh_positions_def)

subsection \<open>Dual-leg execution\<close>

lemma order_sides_long: "order_sides ''LONG_BACKPACK'' = (''buy'', ''sell'')"
  by (simp add: order_sides_def)

lemma order_sides_short: "order_sides ''SHORT_BACKPACK'' = (''sell'', ''buy'')"
  by (simp add: order_sides_def)

lemma order_sides_other: "d \<noteq> ''LONG_BACKPACK'' \<Longrightarrow> order_sides d = (''sell'', ''buy'')"
  by (simp add: order_sides_def)

lemma fst_order_sides_buy: "(fst (order_sides d) = ''buy'') = (d = ''LONG_BACKPACK'')"
  by (simp add: order_sides_def)

lemma both_succeeded_iff:
  "both_succeeded bp lt d self =
     (\<exists>rb rl. bp (order_quantity self) (fst (order_sides d)) = Inr rb \<and>
              lt (order_quantity self) (snd (order_sides d)) = Inr rl \<and>
              success rb \<and> success rl)"
  by (auto simp add: both_succeeded_def leg_success_def split: sum.splits)

lemma not_both_succeeded_iff:
  "(\<not> both_succeeded bp lt d self) =
     ((\<exists>e. bp (order_quantity self) (fst (order_sides d)) = Inl e) \<or>
      (\<exists>r. bp (order_quantity self) (fst (order_sides d)) = Inr r \<and> \<not> success r) \<or>
      (\<exists>e. lt (order_quantity self) (snd (order_sides d)) = Inl e) \<or>
      (\<exists>r. lt (order_quantity self) (snd (order_sides d)) = Inr r \<and> \<not> success r))"
  by (auto simp add: both_succeeded_def leg_success_def split: sum.splits)

lemma execute_arbitrage_success:
  assumes "both_succeeded bp lt d self"
  shows "total_trades (execute_arbitrage bp lt d self) = total_trades self + 1"
    and "successful_trades (execute_arbitrage bp lt d self) = successful_trades self + 1"
    and "failed_trades (execute_arbitrage bp lt d self) = failed_trades self"
    and "order_quantity (execute_arbitrage bp lt d self) = order_quantity self"
    and "position_tracker (execute_arbitrage bp lt d self) =
           (if d = ''LONG_BACKPACK''
            then update_lighter_position (dec_neg (order_quantity self))
                   (update_backpack_position (order_quantity self) (position_tracker self))
            else update_lighter_position (order_quantity self)
                   (update_backpack_position (dec_neg (order_quantity self))
                      (position_tracker self)))"
  using assms
  by (simp_all add: both_succeeded_def execute_arbitrage_def Let_def fst_order_sides_buy)

lemma execute_arbitrage_failure:
  assumes "\<not> both_succeeded bp lt d self"
  shows "execute_arbitrage bp lt d self =
           self\<lparr>total_trades := total_trades self + 1, failed_trades := failed_trades self + 1\<rparr>"
  using assms
  by (auto simp add: both_succeeded_def execute_arbitrage_def Let_def)

lemma tracker_after_success:
  assumes "both_succeeded bp lt d self"
  shows "backpack_position (position_tracker (execute_arbitrage bp lt d self)) =
           dec_round (backpack_position (position_tracker self) +
             (if d = ''LONG_BACKPACK'' then order_quantity self
              else dec_round (- order_quantity self)))"
    and "lighter_position (position_tracker (execute_arbitrage bp lt d self)) =
           dec_round (lighter_position (position_tracker self) +
             (if d = ''LONG_BACKPACK'' then dec_round (- order_quantity self)
              else order_quantity self))"
  using assms
  by (simp_all add: execute_arbitrage_success update_lighter_position_def
      update_backpack_position_def dec_add_def dec_neg_def)

text \<open>
  C1, amended. For every direction and every behaviour of the two legs, one invocation of
  \<^verbatim>\<open>_execute_arbitrage\<close> adds one to the total-trades counter. When both legs return a
  result whose \<open>success\<close> is true, it adds one to the successful-trades counter and
  leaves the failed-trades counter alone, and the tracker is updated by Decimal addition:
  the position of the buy-side venue becomes its old value plus the order quantity, the
  position of the sell-side venue its old value plus the negated order quantity, each
  result rounded to 28 significant digits. When a leg raises, or returns a result whose
  \<open>success\<close> is false, it adds one to the failed-trades counter and changes nothing
  else: the successful-trades counter and the tracker stay as they were.
  \<^verbatim>\<open>LONG_BACKPACK\<close> buys on Backpack and sells on Lighter, \<^verbatim>\<open>SHORT_BACKPACK\<close> does
  the reverse.
\<close>

theorem execute_arbitrage_outcome:
  "total_trades (execute_arbitrage bp lt d self) = total_trades self + 1 \<and>
   (bp (order_quantity self) (fst (order_sides d)) = Inr rb \<and>
    lt (order_quantity self) (snd (order_sides d)) = Inr rl \<and> success rb \<and> success rl \<longrightarrow>
      successful_trades (execute_arbitrage bp lt d self) = successful_trades self + 1 \<and>
      failed_trades (execute_arbitrage bp lt d self) = failed_trades self \<and>
      backpack_position (position_tracker (execute_arbitrage bp lt d self)) =
        dec_round (backpack_position (position_tracker self) +
          (if d = ''LONG_BACKPACK'' then order_quantity self
           else dec_round (- order_quantity self))) \<and>
      lighter_position (position_tracker (execute_arbitrage bp lt d self)) =
        dec_round (lighter_position (position_tracker self) +
          (if d = ''LONG_BACKPACK'' then dec_round (- order_quantity self)
           else order_quantity self))) \<and>
   ((\<exists>e. bp (order_quantity self) (fst (order_sides d)) = Inl e) \<or>
    (\<exists>r. bp (order_quantity self) (fst (order_sides d)) = Inr r \<and> \<not> success r) \<or>
    (\<exists>e. lt (order_quantity self) (snd (order_sides d)) = Inl e) \<or>
    (\<exists>r. lt (order_quantity self) (snd (order_sides d)) = Inr r \<and> \<not> success r) \<longrightarrow>
      execute_arbitrage bp lt d self =
        self\<lparr>total_trades := total_trades self + 1,
             failed_trades := failed_trades self + 1\<rparr>) \<and>
   order_sides ''LONG_BACKPACK'' = (''buy'', ''sell'') \<and>
   order_sides ''SHORT_BACKPACK'' = (''sell'', ''buy'')"
proof -
  have total: "total_trades (execute_arbitrage bp lt d self) = total_trades self + 1"
    by (cases "both_succeeded bp lt d self")
      (simp_all add: execute_arbitrage_success execute_arbitrage_failure)
  have ok: "bp (order_quantity self) (fst (order_sides d)) = Inr rb \<and>
    lt (order_quantity self) (snd (order_sides d)) = Inr rl \<and> success rb \<and> success rl \<longrightarrow>
      successful_trades (execute_arbitrage bp lt d self) = successful_trades self + 1 \<and>
      failed_trades (execute_arbitrage bp lt d self) = failed_trades self \<and>
      backpack_position (position_tracker (execute_arbitrage bp lt d self)) =
        dec_round (backpack_position (position_tracker self) +
          (if d = ''LONG_BACKPACK'' then order_quantity self
           else dec_round (- order_quantity self))) \<and>
      lighter_position (position_tracker (execute_arbitrage bp lt d self)) =
        dec_round (lighter_position (position_tracker self) +
          (if d = ''LONG_BACKPACK'' then dec_round (- order_quantity self)
           else order_quantity self))"
  proof
    assume h: "bp (order_quantity self) (fst (order_sides d)) = Inr rb \<and>
      lt (order_quantity self) (snd (order_sides d)) = Inr rl \<and> success rb \<and> success rl"
    then have both: "both_succeeded bp lt d self"
      unfolding both_succeeded_iff by blast
    from execute_arbitrage_success(2,3) [OF both] tracker_after_success [OF both]
    show "successful_trades (execute_arbitrage bp lt d self) = successful_trades self + 1 \<and>
      failed_trades (execute_arbitrage bp lt d self) = failed_trades self \<and>
      backpack_position (position_tracker (execute_arbitrage bp lt d self)) =
        dec_round (backpack_position (position_tracker self) +
          (if d = ''LONG_BACKPACK'' then order_quantity self
           else dec_round (- order_quantity self))) \<and>
      lighter_position (position_tracker (execute_arbitrage bp lt d self)) =
        dec_round (lighter_position (position_tracker self) +
          (if d = ''LONG_BACKPACK'' then dec_round (- order_quantity self)
           else order_quantity self))"
      by blast
  qed
  have bad: "(\<exists>e. bp (order_quantity self) (fst (order_sides d)) = Inl e) \<or>
    (\<exists>r. bp (order_quantity self) (fst (order_sides d)) = Inr r \<and> \<not> success r) \<or>
    (\<exists>e. lt (order_quantity self) (snd (order_sides d)) = Inl e) \<or>
    (\<exists>r. lt (order_quantity self) (snd (order_sides d)) = Inr r \<and> \<not> success r) \<longrightarrow>
      execute_arbitrage bp lt d self =
        self\<lparr>total_trades := total_trades self + 1,
             failed_trades := failed_trades self + 1\<rparr>"
    using execute_arbitrage_failure [of bp lt d self]
    unfolding not_both_succeeded_iff by blast
  from total ok bad order_sides_long order_sides_short show ?thesis by blast
qed

lemma filled_result_success: "success (filled_result q sd)"
  by (simp add: filled_result_def OrderResult_init_def)

lemma rejected_result_failure: "\<not> success rejected_result"
  by (simp add: rejected_result_def OrderResult_init_def)

lemma example_long_ok: "both_succeeded filled_leg filled_leg ''LONG_BACKPACK'' example_bot"
  by (simp add: both_succeeded_def filled_leg_def leg_success_def filled_result_success)

lemma filled_legs_succeed: "both_succeeded filled_leg filled_leg d self"
  by (simp add: both_succeeded_def filled_leg_def leg_success_def filled_result_success)

theorem execute_arbitrage_outcome_witness:
  "filled_leg (5 / 100) ''buy'' = Inr (filled_result (5 / 100) ''buy'') \<and>
   filled_leg (5 / 100) ''sell'' = Inr (filled_result (5 / 100) ''sell'') \<and>
   success (filled_result (5 / 100) ''buy'') \<and> success (filled_result (5 / 100) ''sell'') \<and>
   total_trades (execute_arbitrage filled_leg filled_leg ''LONG_BACKPACK'' example_bot) = 1 \<and>
   successful_trades (execute_arbitrage filled_leg filled_leg ''LONG_BACKPACK'' example_bot) = 1 \<and>
   failed_trades (execute_arbitrage filled_leg filled_leg ''LONG_BACKPACK'' example_bot) = 0 \<and>
   backpack_position (position_tracker
      (execute_arbitrage filled_leg filled_leg ''LONG_BACKPACK'' example_bot)) = 1 / 10 \<and>
   lighter_position (position_tracker
      (execute_arbitrage filled_leg filled_leg ''LONG_BACKPACK'' example_bot)) = - (1 / 10) \<and>
   backpack_position (position_tracker
      (execute_arbitrage filled_leg filled_leg ''SHORT_BACKPACK'' example_bot)) = 0 \<and>
   lighter_position (position_tracker
      (execute_arbitrage filled_leg filled_leg ''SHORT_BACKPACK'' example_bot)) = 0 \<and>
   rejecting_leg (5 / 100) ''buy'' = Inr rejected_result \<and> \<not> success rejected_result \<and>
   execute_arbitrage rejecting_leg filled_leg ''LONG_BACKPACK'' example_bot =
     example_bot\<lparr>total_trades := 1, failed_trades := 1\<rparr> \<and>
   execute_arbitrage filled_leg rejecting_leg ''SHORT_BACKPACK'' example_bot =
     example_bot\<lparr>total_trades := 1, failed_trades := 1\<rparr> \<and>
   raising_leg (5 / 100) ''sell'' = Inl (Exn ''ConnectionError'' ''timeout'') \<and>
   execute_arbitrage filled_leg raising_leg ''LONG_BACKPACK'' example_bot =
     example_bot\<lparr>total_trades := 1, failed_trades := 1\<rparr>"
proof -
  have q: "order_quantity example_bot = 5 / 100"
    and bpp: "backpack_position (position_tracker example_bot) = 5 / 100"
    and ltp: "lighter_position (position_tracker example_bot) = - (5 / 100)"
    and tt: "total_trades example_bot = 0" and st: "successful_trades example_bot = 0"
    and ft: "failed_trades example_bot = 0"
    by (simp_all add: example_bot_def)
  note vals = dec_round_values dec_round_minus
  from execute_arbitrage_outcome [of filled_leg filled_leg "''LONG_BACKPACK''" example_bot
      "filled_result (5 / 100) ''buy''" "filled_result (5 / 100) ''sell''"]
  have long: "total_trades (execute_arbitrage filled_leg filled_leg ''LONG_BACKPACK'' example_bot) = 1 \<and>
   successful_trades (execute_arbitrage filled_leg filled_leg ''LONG_BACKPACK'' example_bot) = 1 \<and>
   failed_trades (execute_arbitrage filled_leg filled_leg ''LONG_BACKPACK'' example_bot) = 0 \<and>
   backpack_position (position_tracker
      (execute_arbitrage filled_leg filled_leg ''LONG_BACKPACK'' example_bot)) = 1 / 10 \<and>
   lighter_position (position_tracker
      (execute_arbitrage filled_leg filled_leg ''LONG_BACKPACK'' example_bot)) = - (1 / 10)"
    by (simp add: q bpp ltp tt st ft filled_leg_def filled_result_success order_sides_long vals)
  from execute_arbitrage_outcome [of filled_leg filled_leg "''SHORT_BACKPACK''" example_bot
      "filled_result (5 / 100) ''sell''" "filled_result (5 / 100) ''buy''"]
  have short: "backpack_position (position_tracker
      (execute_arbitrage filled_leg filled_leg ''SHORT_BACKPACK'' example_bot)) = 0 \<and>
   lighter_position (position_tracker
      (execute_arbitrage filled_leg filled_leg ''SHORT_BACKPACK'' example_bot)) = 0"
    by (simp add: q bpp ltp filled_leg_def filled_result_success order_sides_short vals)
  from execute_arbitrage_outcome [of rejecting_leg filled_leg "''LONG_BACKPACK''" example_bot]
  have rej1: "execute_arbitrage rejecting_leg filled_leg ''LONG_BACKPACK'' example_bot =
     example_bot\<lparr>total_trades := 1, failed_trades := 1\<rparr>"
    by (simp add: tt ft rejecting_leg_def rejected_result_failure)
  from execute_arbitrage_outcome [of filled_leg rejecting_leg "''SHORT_BACKPACK''" example_bot]
  have rej2: "execute_arbitrage filled_leg rejecting_leg ''SHORT_BACKPACK'' example_bot =
     example_bot\<lparr>total_trades := 1, failed_trades := 1\<rparr>"
    by (simp add: tt ft rejecting_leg_def rejected_result_failure)
  from execute_arbitrage_outcome [of filled_leg raising_leg "''LONG_BACKPACK''" example_bot]
  have rais: "execute_arbitrage filled_leg raising_leg ''LONG_BACKPACK'' example_bot =
     example_bot\<lparr>total_trades := 1, failed_trades := 1\<rparr>"
    by (simp add: tt ft raising_leg_def)
  from long short rej1 rej2 rais show ?thesis
    by (simp add: filled_leg_def rejecting_leg_def raising_leg_def filled_result_success
        rejected_result_failure)
qed

text \<open>
  C1, as stated, fails where the sum is rounded. With an order size of
  0.3333333333333333333333333333 and a Backpack position of 1, both legs succeed, and the
  new Backpack position is 1.333333333333333333333333333: the position has not changed
  by the order quantity.
\<close>

theorem position_update_rounds_counterexample:
  "filled_leg (order_quantity thirds_bot) ''buy'' =
     Inr (filled_result (order_quantity thirds_bot) ''buy'') \<and>
   filled_leg (order_quantity thirds_bot) ''sell'' =
     Inr (filled_result (order_quantity thirds_bot) ''sell'') \<and>
   success (filled_result (order_quantity thirds_bot) ''buy'') \<and>
   success (filled_result (order_quantity thirds_bot) ''sell'') \<and>
   order_quantity thirds_bot = 3333333333333333333333333333 / 10 ^ 28 \<and>
   backpack_position (position_tracker thirds_bot) = 1 \<and>
   backpack_position (position_tracker
      (execute_arbitrage filled_leg filled_leg ''LONG_BACKPACK'' thirds_bot)) =
     1333333333333333333333333333 / 10 ^ 27 \<and>
   backpack_position (position_tracker
      (execute_arbitrage filled_leg filled_leg ''LONG_BACKPACK'' thirds_bot)) \<noteq>
     backpack_position (position_tracker thirds_bot) + order_quantity thirds_bot"
proof -
  have q: "order_quantity thirds_bot = 3333333333333333333333333333 / 10 ^ 28"
    and bpp: "backpack_position (position_tracker thirds_bot) = 1"
    by (simp_all add: thirds_bot_def)
  have after: "backpack_position (position_tracker
      (execute_arbitrage filled_leg filled_leg ''LONG_BACKPACK'' thirds_bot)) =
     1333333333333333333333333333 / 10 ^ 27"
    unfolding tracker_after_success(1) [OF filled_legs_succeed] q bpp
    using dec_round_thirds(2) by simp
  have ne: "(1333333333333333333333333333 / 10 ^ 27 :: rat) \<noteq>
      1 + 3333333333333333333333333333 / 10 ^ 28"
    by simp
  from after ne q bpp show ?thesis
    by (simp add: filled_leg_def filled_result_success)
qed

subsection \<open>The hedge invariant\<close>

lemma net_position_step:
  assumes ok: "both_succeeded bp lt d self" and ex: "exact_updates d self"
  shows "get_net_position (position_tracker (execute_arbitrage bp lt d self)) =
         get_net_position (position_tracker self)"
proof -
  let ?q = "order_quantity self"
  let ?b = "backpack_position (position_tracker self)"
  let ?l = "lighter_position (position_tracker self)"
  from ex have neg: "dec_round (- ?q) = - ?q"
    by (simp add: exact_updates_def Let_def dec_exact_def)
  show ?thesis
  proof (cases "d = ''LONG_BACKPACK''")
    case True
    with ex have "dec_round (?b + ?q) = ?b + ?q" and "dec_round (?l - ?q) = ?l - ?q"
      by (simp_all add: exact_updates_def Let_def dec_exact_def)
    with True neg tracker_after_success [OF ok] show ?thesis
      by (simp add: get_net_position_def dec_add_def)
  next
    case False
    with ex have "dec_round (?b - ?q) = ?b - ?q" and "dec_round (?l + ?q) = ?l + ?q"
      by (simp_all add: exact_updates_def Let_def dec_exact_def)
    with False neg tracker_after_success [OF ok] show ?thesis
      by (simp add: get_net_position_def dec_add_def)
  qed
qed

lemma net_position_sequence:
  "all_exact_successes xs self \<Longrightarrow>
   get_net_position (position_tracker (execute_all xs self)) =
   get_net_position (position_tracker self)"
proof (induction xs arbitrary: self)
  case Nil
  then show ?case by simp
next
  case (Cons x xs)
  obtain bp lt d where x: "x = (bp, lt, d)" by (cases x) auto
  from Cons.prems x have ok: "both_succeeded bp lt d self" and ex: "exact_updates d self"
    and rest: "all_exact_successes xs (execute_arbitrage bp lt d self)" by simp_all
  from Cons.IH [OF rest] net_position_step [OF ok ex] x show ?case by simp
qed

text \<open>
  C7, amended. The net position \<^verbatim>\<open>get_net_position\<close> (the Decimal sum of the Backpack
  and the Lighter position) is the same after a jointly successful
  \<^verbatim>\<open>_execute_arbitrage\<close> as before it whenever the position updates are exact, that is,
  the negated order quantity and the two new positions need no rounding to 28
  significant digits; therefore it is the same after any sequence of such executions,
  whatever their directions, and the position is balanced within a tolerance afterwards
  exactly when it was before.
\<close>

theorem net_position_invariant:
  "(bp (order_quantity self) (fst (order_sides d)) = Inr rb \<and>
    lt (order_quantity self) (snd (order_sides d)) = Inr rl \<and> success rb \<and> success rl \<and>
    exact_updates d self \<longrightarrow>
      get_net_position (position_tracker (execute_arbitrage bp lt d self)) =
      get_net_position (position_tracker self)) \<and>
   (all_exact_successes xs self \<longrightarrow>
      get_net_position (position_tracker (execute_all xs self)) =
      get_net_position (position_tracker self) \<and>
      (\<forall>tolerance. is_position_balanced tolerance (position_tracker (execute_all xs self)) =
                    is_position_balanced tolerance (position_tracker self)))"
proof -
  have one: "bp (order_quantity self) (fst (order_sides d)) = Inr rb \<and>
    lt (order_quantity self) (snd (order_sides d)) = Inr rl \<and> success rb \<and> success rl \<and>
    exact_updates d self \<longrightarrow>
      get_net_position (position_tracker (execute_arbitrage bp lt d self)) =
      get_net_position (position_tracker self)"
  proof
    assume h: "bp (order_quantity self) (fst (order_sides d)) = Inr rb \<and>
      lt (order_quantity self) (snd (order_sides d)) = Inr rl \<and> success rb \<and> success rl \<and>
      exact_updates d self"
    then have "both_succeeded bp lt d self" unfolding both_succeeded_iff by blast
    with h show "get_net_position (position_tracker (execute_arbitrage bp lt d self)) =
      get_net_position (position_tracker self)"
      by (simp add: net_position_step)
  qed
  have many: "all_exact_successes xs self \<longrightarrow>
      get_net_position (position_tracker (execute_all xs self)) =
      get_net_position (position_tracker self) \<and>
      (\<forall>tolerance. is_position_balanced tolerance (position_tracker (execute_all xs self)) =
                    is_position_balanced tolerance (position_tracker self))"
    by (simp add: net_position_sequence is_position_balanced_def)
  from one many show ?thesis by blast
qed

lemma tracker_after_long:
  assumes "both_succeeded bp lt ''LONG_BACKPACK'' self"
  shows "backpack_position (position_tracker (execute_arbitrage bp lt ''LONG_BACKPACK'' self)) =
           dec_round (backpack_position (position_tracker self) + order_quantity self)"
    and "lighter_position (position_tracker (execute_arbitrage bp lt ''LONG_BACKPACK'' self)) =
           dec_round (lighter_position (position_tracker self) +
             dec_round (- order_quantity self))"
  using tracker_after_success [OF assms] by simp_all

lemma dec_round_one: "dec_round 1 = 1"
  by code_simp

text \<open>
  C7, as stated, fails where a position update is rounded. With an order size of
  0.3333333333333333333333333333, a Backpack position of 1 and a Lighter position of 0,
  one jointly successful long execution moves the net position from 1 to
  0.9999999999999999999999999997.
\<close>

theorem net_position_drifts_counterexample:
  "filled_leg (order_quantity thirds_bot) ''buy'' =
     Inr (filled_result (order_quantity thirds_bot) ''buy'') \<and>
   filled_leg (order_quantity thirds_bot) ''sell'' =
     Inr (filled_result (order_quantity thirds_bot) ''sell'') \<and>
   success (filled_result (order_quantity thirds_bot) ''buy'') \<and>
   success (filled_result (order_quantity thirds_bot) ''sell'') \<and>
   successful_trades (execute_arbitrage filled_leg filled_leg ''LONG_BACKPACK'' thirds_bot) =
     successful_trades thirds_bot + 1 \<and>
   get_net_position (position_tracker thirds_bot) = 1 \<and>
   get_net_position (position_tracker
      (execute_arbitrage filled_leg filled_leg ''LONG_BACKPACK'' thirds_bot)) =
     9999999999999999999999999997 / 10 ^ 28 \<and>
   get_net_position (position_tracker
      (execute_arbitrage filled_leg filled_leg ''LONG_BACKPACK'' thirds_bot)) \<noteq>
     get_net_position (position_tracker thirds_bot)"
proof -
  have q: "order_quantity thirds_bot = 3333333333333333333333333333 / 10 ^ 28"
    and bpp: "backpack_position (position_tracker thirds_bot) = 1"
    and ltp: "lighter_position (position_tracker thirds_bot) = 0"
    by (simp_all add: thirds_bot_def)
  have before: "get_net_position (position_tracker thirds_bot) = 1"
    by (simp add: get_net_position_def dec_add_def bpp ltp dec_round_one)
  have bp': "backpack_position (position_tracker
      (execute_arbitrage filled_leg filled_leg ''LONG_BACKPACK'' thirds_bot)) =
     1333333333333333333333333333 / 10 ^ 27"
    by (simp only: tracker_after_long(1) [OF filled_legs_succeed] q bpp dec_round_thirds(2))
  have lt': "lighter_position (position_tracker
      (execute_arbitrage filled_leg filled_leg ''LONG_BACKPACK'' thirds_bot)) =
     - (3333333333333333333333333333 / 10 ^ 28)"
    by (simp only: tracker_after_long(2) [OF filled_legs_succeed] q ltp dec_round_minus
        dec_round_thirds(1) add_0)
  have after: "get_net_position (position_tracker
      (execute_arbitrage filled_leg filled_leg ''LONG_BACKPACK'' thirds_bot)) =
     9999999999999999999999999997 / 10 ^ 28"
    by (simp only: get_net_position_def dec_add_def bp' lt' add_uminus_conv_diff
        dec_round_thirds(3))
  have ne: "(9999999999999999999999999997 / 10 ^ 28 :: rat) \<noteq> 1" by simp
  from before after ne execute_arbitrage_success(2) [OF filled_legs_succeed]
  show ?thesis
    by (simp add: filled_leg_def filled_result_success)
qed

lemma example_exact_long:
  "exact_updates ''LONG_BACKPACK'' example_bot"
  by (simp add: exact_updates_def example_bot_def Let_def dec_exact_def
      dec_round_values dec_round_minus)

lemma example_alternating:
  "all_exact_successes
     [(filled_leg, filled_leg, ''LONG_BACKPACK''), (filled_leg, filled_leg, ''SHORT_BACKPACK''),
      (filled_leg, filled_leg, ''LONG_BACKPACK'')] example_bot"
  by (simp add: filled_legs_succeed exact_updates_def Let_def dec_exact_def
      execute_arbitrage_success update_lighter_position_def update_backpack_position_def
      dec_add_def dec_neg_def example_bot_def dec_round_values dec_round_minus)

theorem net_position_invariant_witness:
  "filled_leg (order_quantity example_bot) ''buy'' =
     Inr (filled_result (order_quantity example_bot) ''buy'') \<and>
   filled_leg (order_quantity example_bot) ''sell'' =
     Inr (filled_result (order_quantity example_bot) ''sell'') \<and>
   success (filled_result (order_quantity example_bot) ''buy'') \<and>
   success (filled_result (order_quantity example_bot) ''sell'') \<and>
   exact_updates ''LONG_BACKPACK'' example_bot \<and>
   get_net_position (position_tracker example_bot) = 0 \<and>
   get_net_position (position_tracker
     (execute_arbitrage filled_leg filled_leg ''LONG_BACKPACK'' example_bot)) = 0 \<and>
   all_exact_successes
     [(filled_leg, filled_leg, ''LONG_BACKPACK''), (filled_leg, filled_leg, ''SHORT_BACKPACK''),
      (filled_leg, filled_leg, ''LONG_BACKPACK'')] example_bot \<and>
   get_net_position (position_tracker (execute_all
     [(filled_leg, filled_leg, ''LONG_BACKPACK''), (filled_leg, filled_leg, ''SHORT_BACKPACK''),
      (filled_leg, filled_leg, ''LONG_BACKPACK'')] example_bot)) = 0"
proof -
  have net0: "get_net_position (position_tracker example_bot) = 0"
    by (simp add: get_net_position_def dec_add_def example_bot_def dec_round_values)
  from net_position_invariant [of filled_leg example_bot "''LONG_BACKPACK''"
      "filled_result (order_quantity example_bot) ''buy''" filled_leg
      "filled_result (order_quantity example_bot) ''sell''"
      "[(filled_leg, filled_leg, ''LONG_BACKPACK''), (filled_leg, filled_leg, ''SHORT_BACKPACK''),
        (filled_leg, filled_leg, ''LONG_BACKPACK'')]"]
    example_exact_long example_alternating net0
  show ?thesis
    by (simp add: filled_leg_def filled_result_success order_sides_long)
qed

subsection \<open>Spreads, readiness and the signal\<close>

lemma truthy_Some [simp]: "truthy (Some x) = (x \<noteq> 0)"
  by (simp add: truthy_def)

lemma truthy_None [simp]: "\<not> truthy None"
  by (simp add: truthy_def)

lemma truthy_iff: "truthy v = (\<exists>x. v = Some x \<and> x \<noteq> 0)"
  by (cases v) simp_all

lemma get_spread_not_ready: "\<not> is_ready m \<Longrightarrow> get_spread m = (None, None)"
  by (simp add: get_spread_def)

lemma determine_signal_long:
  "determine_signal ls ss lthr sthr = ''LONG_BACKPACK'' \<Longrightarrow> \<exists>x. ls = Some x \<and> lthr < x"
  by (auto simp add: determine_signal_def truthy_iff split: if_splits)

lemma determine_signal_short:
  "determine_signal ls ss lthr sthr = ''SHORT_BACKPACK'' \<Longrightarrow> \<exists>y. ss = Some y \<and> sthr < y"
  by (auto simp add: determine_signal_def truthy_iff split: if_splits)

lemma determine_signal_cases:
  "determine_signal ls ss lthr sthr = ''NONE'' \<or>
   determine_signal ls ss lthr sthr = ''LONG_BACKPACK'' \<or>
   determine_signal ls ss lthr sthr = ''SHORT_BACKPACK''"
  by (simp add: determine_signal_def)

lemma trading_tick_not_ready:
  "\<not> is_ready (update_order_books bp_ws lt_ws (order_book_manager self)) \<Longrightarrow>
   trading_tick bp_ws lt_ws bp lt self =
     self\<lparr>order_book_manager := update_order_books bp_ws lt_ws (order_book_manager self)\<rparr>"
  by (simp add: trading_tick_def Let_def)

lemma trading_tick_no_signal:
  assumes "determine_signal
             (fst (get_spread (update_order_books bp_ws lt_ws (order_book_manager self))))
             (snd (get_spread (update_order_books bp_ws lt_ws (order_book_manager self))))
             (long_threshold self) (short_threshold self) = ''NONE''"
  shows "trading_tick bp_ws lt_ws bp lt self =
     self\<lparr>order_book_manager := update_order_books bp_ws lt_ws (order_book_manager self)\<rparr>"
  using assms by (simp add: trading_tick_def Let_def)

lemma trading_tick_trade_needs_signal:
  assumes "total_trades (trading_tick bp_ws lt_ws bp lt self) \<noteq> total_trades self"
  shows "(\<exists>x. fst (get_spread (update_order_books bp_ws lt_ws (order_book_manager self))) = Some x
               \<and> long_threshold self < x) \<or>
         (\<exists>y. snd (get_spread (update_order_books bp_ws lt_ws (order_book_manager self))) = Some y
               \<and> short_threshold self < y)"
proof -
  let ?m = "update_order_books bp_ws lt_ws (order_book_manager self)"
  let ?sig = "determine_signal (fst (get_spread ?m)) (snd (get_spread ?m))
                (long_threshold self) (short_threshold self)"
  have "?sig \<noteq> ''NONE''"
  proof
    assume "?sig = ''NONE''"
    from trading_tick_no_signal [OF this] assms show False by simp
  qed
  with determine_signal_cases [of "fst (get_spread ?m)" "snd (get_spread ?m)"
      "long_threshold self" "short_threshold self"]
  have "?sig = ''LONG_BACKPACK'' \<or> ?sig = ''SHORT_BACKPACK''" by simp
  then show ?thesis
    using determine_signal_long determine_signal_short by blast
qed

lemma update_order_books_ready:
  "backpack_ready (update_order_books bp_ws lt_ws m) =
     (backpack_ready m \<or> (\<exists>ws. bp_ws = Some ws \<and> truthy (best_bid ws) \<and> truthy (best_ask ws)))"
  "lighter_ready (update_order_books bp_ws lt_ws m) =
     (lighter_ready m \<or> (\<exists>ws. lt_ws = Some ws \<and> truthy (best_bid ws) \<and> truthy (best_ask ws)))"
  by (auto simp add: update_order_books_def update_backpack_bbo_def update_lighter_bbo_def
      Let_def split: option.splits)

text \<open>
  The manager of the running bot is filled only by \<^verbatim>\<open>_update_order_books\<close>, which
  copies truthy quotes: it never holds a zero, and a ready flag is set together with both
  values of its venue.
\<close>

lemma quotes_nonzero_init: "quotes_nonzero OrderBookManager_init"
  by (simp add: quotes_nonzero_def OrderBookManager_init_def)

lemma quotes_nonzero_update:
  "quotes_nonzero m \<Longrightarrow> quotes_nonzero (update_order_books bp_ws lt_ws m)"
  by (auto simp add: quotes_nonzero_def update_order_books_def update_backpack_bbo_def
      update_lighter_bbo_def Let_def truthy_iff split: option.splits)

text \<open>
  C8. Whenever the ready flag of either exchange is false, \<^verbatim>\<open>get_spread\<close> returns
  \<^verbatim>\<open>(None, None)\<close>, which the signal computation reads as no signal; and a tick of
  the trading loop that finds either flag false after pulling the quotes ends there:
  it executes no trade and leaves the counters, the positions and the trade rows as
  they were.
\<close>

theorem not_ready_no_signal_no_trade:
  "(\<not> backpack_ready m \<or> \<not> lighter_ready m \<longrightarrow> get_spread m = (None, None)) \<and>
   determine_signal None None lthr sthr = ''NONE'' \<and>
   (\<not> backpack_ready (update_order_books bp_ws lt_ws (order_book_manager self)) \<or>
    \<not> lighter_ready (update_order_books bp_ws lt_ws (order_book_manager self)) \<longrightarrow>
      trading_tick bp_ws lt_ws bp lt self =
        self\<lparr>order_book_manager := update_order_books bp_ws lt_ws (order_book_manager self)\<rparr>)"
proof -
  have a: "\<not> backpack_ready m \<or> \<not> lighter_ready m \<longrightarrow> get_spread m = (None, None)"
    using get_spread_not_ready [of m] by (auto simp add: is_ready_def)
  have b: "determine_signal None None lthr sthr = ''NONE''"
    by (simp add: determine_signal_def)
  have c: "\<not> backpack_ready (update_order_books bp_ws lt_ws (order_book_manager self)) \<or>
    \<not> lighter_ready (update_order_books bp_ws lt_ws (order_book_manager self)) \<longrightarrow>
      trading_tick bp_ws lt_ws bp lt self =
        self\<lparr>order_book_manager := update_order_books bp_ws lt_ws (order_book_manager self)\<rparr>"
    using trading_tick_not_ready [of bp_ws lt_ws self bp lt] by (auto simp add: is_ready_def)
  from a b c show ?thesis by blast
qed

theorem not_ready_no_signal_no_trade_witness:
  "\<not> lighter_ready (update_order_books (Some backpack_quote) (Some lighter_half_quote)
        (order_book_manager example_bot)) \<and>
   get_spread (update_order_books (Some backpack_quote) (Some lighter_half_quote)
        (order_book_manager example_bot)) = (None, None) \<and>
   total_trades (trading_tick (Some backpack_quote) (Some lighter_half_quote)
        filled_leg filled_leg example_bot) = 0 \<and>
   position_tracker (trading_tick (Some backpack_quote) (Some lighter_half_quote)
        filled_leg filled_leg example_bot) = position_tracker example_bot"
  using not_ready_no_signal_no_trade [of
      "update_order_books (Some backpack_quote) (Some lighter_half_quote)
        (order_book_manager example_bot)" 5 5
      "Some backpack_quote" "Some lighter_half_quote" example_bot filled_leg filled_leg]
  by (simp add: update_order_books_def update_backpack_bbo_def backpack_quote_def
      lighter_half_quote_def example_bot_def OrderBookManager_init_def)

lemma get_spread_present:
  assumes "is_ready m"
    and "lighter_best_bid m = Some lb" and "backpack_best_ask m = Some ba"
    and "backpack_best_bid m = Some bb" and "lighter_best_ask m = Some la"
    and "lb \<noteq> 0" and "ba \<noteq> 0" and "bb \<noteq> 0" and "la \<noteq> 0"
  shows "get_spread m = (Some (dec_round (lb - ba)), Some (dec_round (bb - la)))"
  using assms by (simp add: get_spread_def dec_sub_def)

lemma update_order_books_present:
  assumes "backpack_ready m \<longrightarrow> backpack_best_bid m \<noteq> None \<and> backpack_best_ask m \<noteq> None"
    and "lighter_ready m \<longrightarrow> lighter_best_bid m \<noteq> None \<and> lighter_best_ask m \<noteq> None"
  shows "(backpack_ready (update_order_books bp_ws lt_ws m) \<longrightarrow>
            backpack_best_bid (update_order_books bp_ws lt_ws m) \<noteq> None \<and>
            backpack_best_ask (update_order_books bp_ws lt_ws m) \<noteq> None) \<and>
         (lighter_ready (update_order_books bp_ws lt_ws m) \<longrightarrow>
            lighter_best_bid (update_order_books bp_ws lt_ws m) \<noteq> None \<and>
            lighter_best_ask (update_order_books bp_ws lt_ws m) \<noteq> None)"
  using assms
  by (auto simp add: update_order_books_def update_backpack_bbo_def update_lighter_bbo_def
      Let_def split: option.splits)

lemma run_updates_invariant:
  assumes "quotes_nonzero m"
    and "backpack_ready m \<longrightarrow> backpack_best_bid m \<noteq> None \<and> backpack_best_ask m \<noteq> None"
    and "lighter_ready m \<longrightarrow> lighter_best_bid m \<noteq> None \<and> lighter_best_ask m \<noteq> None"
  shows "quotes_nonzero (run_updates feeds m) \<and>
         (backpack_ready (run_updates feeds m) \<longrightarrow>
            backpack_best_bid (run_updates feeds m) \<noteq> None \<and>
            backpack_best_ask (run_updates feeds m) \<noteq> None) \<and>
         (lighter_ready (run_updates feeds m) \<longrightarrow>
            lighter_best_bid (run_updates feeds m) \<noteq> None \<and>
            lighter_best_ask (run_updates feeds m) \<noteq> None)"
  using assms
proof (induction feeds arbitrary: m)
  case Nil
  then show ?case by simp
next
  case (Cons f feeds)
  obtain bp_ws lt_ws where f: "f = (bp_ws, lt_ws)" by (cases f) auto
  from Cons.prems(1) have a: "quotes_nonzero (update_order_books bp_ws lt_ws m)"
    by (rule quotes_nonzero_update)
  from update_order_books_present [OF Cons.prems(2,3), of bp_ws lt_ws]
  have b: "backpack_ready (update_order_books bp_ws lt_ws m) \<longrightarrow>
            backpack_best_bid (update_order_books bp_ws lt_ws m) \<noteq> None \<and>
            backpack_best_ask (update_order_books bp_ws lt_ws m) \<noteq> None"
    and c: "lighter_ready (update_order_books bp_ws lt_ws m) \<longrightarrow>
            lighter_best_bid (update_order_books bp_ws lt_ws m) \<noteq> None \<and>
            lighter_best_ask (update_order_books bp_ws lt_ws m) \<noteq> None"
    by blast+
  from Cons.IH [OF a b c] f show ?case by simp
qed

lemma reachable_invariant:
  "quotes_nonzero (run_updates feeds OrderBookManager_init) \<and>
   (is_ready (run_updates feeds OrderBookManager_init) \<longrightarrow>
      backpack_best_bid (run_updates feeds OrderBookManager_init) \<noteq> None \<and>
      backpack_best_ask (run_updates feeds OrderBookManager_init) \<noteq> None \<and>
      lighter_best_bid (run_updates feeds OrderBookManager_init) \<noteq> None \<and>
      lighter_best_ask (run_updates feeds OrderBookManager_init) \<noteq> None)"
  using run_updates_invariant [of OrderBookManager_init feeds] quotes_nonzero_init
  by (simp add: OrderBookManager_init_def is_ready_def)

lemma get_spread_reachable:
  assumes m: "m = run_updates feeds OrderBookManager_init" and "is_ready m"
    and "lighter_best_bid m = Some lb" and "backpack_best_ask m = Some ba"
    and "backpack_best_bid m = Some bb" and "lighter_best_ask m = Some la"
  shows "get_spread m = (Some (dec_round (lb - ba)), Some (dec_round (bb - la)))"
proof -
  from reachable_invariant [of feeds] m have "quotes_nonzero m" by simp
  with assms(3-6) have "lb \<noteq> 0" "ba \<noteq> 0" "bb \<noteq> 0" "la \<noteq> 0"
    by (auto simp add: quotes_nonzero_def)
  with assms(2-6) show ?thesis by (rule get_spread_present)
qed

lemma manager_at_threshold:
  "run_updates [(Some backpack_quote, Some lighter_quote)] OrderBookManager_init =
     \<lparr>backpack_best_bid = Some 100, backpack_best_ask = Some 101, backpack_ready = True,
      lighter_best_bid = Some 106, lighter_best_ask = Some 107, lighter_ready = True\<rparr>"
  by (simp add: update_order_books_def update_backpack_bbo_def update_lighter_bbo_def
      backpack_quote_def lighter_quote_def OrderBookManager_init_def)

lemma manager_above_threshold:
  "run_updates [(Some backpack_quote, Some lighter_quote_above)] OrderBookManager_init =
     \<lparr>backpack_best_bid = Some 100, backpack_best_ask = Some 101, backpack_ready = True,
      lighter_best_bid = Some (10601 / 100), lighter_best_ask = Some 107, lighter_ready = True\<rparr>"
  by (simp add: update_order_books_def update_backpack_bbo_def update_lighter_bbo_def
      backpack_quote_def lighter_quote_above_def OrderBookManager_init_def)

lemma manager_long_digits:
  "run_updates [(Some long_digits_quote, Some lighter_quote_above)] OrderBookManager_init =
     \<lparr>backpack_best_bid = Some 100, backpack_best_ask = Some (101 + 1 / 10 ^ 28),
      backpack_ready = True,
      lighter_best_bid = Some (10601 / 100), lighter_best_ask = Some 107, lighter_ready = True\<rparr>"
  by (simp add: update_order_books_def update_backpack_bbo_def update_lighter_bbo_def
      long_digits_quote_def lighter_quote_above_def OrderBookManager_init_def)

lemma spread_at_threshold:
  "get_spread (run_updates [(Some backpack_quote, Some lighter_quote)] OrderBookManager_init) =
     (Some 5, Some (- 7))"
  unfolding manager_at_threshold
  by (simp add: get_spread_def is_ready_def dec_sub_def dec_round_values dec_round_minus)

lemma spread_above_threshold:
  "get_spread (run_updates [(Some backpack_quote, Some lighter_quote_above)]
     OrderBookManager_init) = (Some (501 / 100), Some (- 7))"
  unfolding manager_above_threshold
  by (simp add: get_spread_def is_ready_def dec_sub_def dec_round_values dec_round_minus)

text \<open>
  C3, as stated, fails where a difference is rounded. After one tick that sees a Backpack
  quote with the ask 101.0000000000000000000000000001 and a Lighter quote with the bid
  106.01, both books are ready and all four values are present, and the long spread that
  \<^verbatim>\<open>get_spread\<close> returns is 5.01, which is not the Lighter bid minus the Backpack ask.
\<close>

theorem get_spread_rounds_counterexample:
  "is_ready (run_updates [(Some long_digits_quote, Some lighter_quote_above)]
      OrderBookManager_init) \<and>
   lighter_best_bid (run_updates [(Some long_digits_quote, Some lighter_quote_above)]
      OrderBookManager_init) = Some (10601 / 100) \<and>
   backpack_best_ask (run_updates [(Some long_digits_quote, Some lighter_quote_above)]
      OrderBookManager_init) = Some (101 + 1 / 10 ^ 28) \<and>
   backpack_best_bid (run_updates [(Some long_digits_quote, Some lighter_quote_above)]
      OrderBookManager_init) = Some 100 \<and>
   lighter_best_ask (run_updates [(Some long_digits_quote, Some lighter_quote_above)]
      OrderBookManager_init) = Some 107 \<and>
   fst (get_spread (run_updates [(Some long_digits_quote, Some lighter_quote_above)]
      OrderBookManager_init)) = Some (501 / 100) \<and>
   (501 / 100 :: rat) \<noteq> 10601 / 100 - (101 + 1 / 10 ^ 28)"
proof -
  let ?m = "run_updates [(Some long_digits_quote, Some lighter_quote_above)]
      OrderBookManager_init"
  have ready: "is_ready ?m" unfolding manager_long_digits by (simp add: is_ready_def)
  have lb: "lighter_best_bid ?m = Some (10601 / 100)"
    and ba: "backpack_best_ask ?m = Some (101 + 1 / 10 ^ 28)"
    and bb: "backpack_best_bid ?m = Some 100" and la: "lighter_best_ask ?m = Some 107"
    by (simp_all only: manager_long_digits OrderBookManager.simps)
  from get_spread_reachable [OF refl ready lb ba bb la]
  have "fst (get_spread ?m) = Some (dec_round (10601 / 100 - (101 + 1 / 10 ^ 28)))"
    by (simp only: fst_conv)
  then have sp: "fst (get_spread ?m) = Some (501 / 100)"
    by (simp only: dec_round_long_digits)
  have ne: "(501 / 100 :: rat) \<noteq> 10601 / 100 - (101 + 1 / 10 ^ 28)" by simp
  from ready lb ba bb la sp ne show ?thesis by blast
qed

text \<open>
  C3, amended. In every order book manager the bot can hold, when both order books are
  ready all four best bid and ask values are present, and \<^verbatim>\<open>get_spread\<close> returns
  (Lighter bid minus Backpack ask, Backpack bid minus Lighter ask) as Decimal computes
  the two differences, each rounded to 28 significant digits: for Backpack at 100/101 and
  Lighter at 106/107 that is (5, -7). The trading loop produces a signal only when the
  spread is strictly above its threshold, and a tick executes a trade only then: with a
  long threshold of 5, a long spread of exactly 5 gives the signal NONE and 5.01 gives
  \<^verbatim>\<open>LONG_BACKPACK\<close>.
\<close>

theorem get_spread_and_signal:
  "(m = run_updates feeds OrderBookManager_init \<and> is_ready m \<longrightarrow>
      lighter_best_bid m \<noteq> None \<and> backpack_best_ask m \<noteq> None \<and>
      backpack_best_bid m \<noteq> None \<and> lighter_best_ask m \<noteq> None) \<and>
   (m = run_updates feeds OrderBookManager_init \<and> is_ready m \<and>
    lighter_best_bid m = Some lb \<and> backpack_best_ask m = Some ba \<and>
    backpack_best_bid m = Some bb \<and> lighter_best_ask m = Some la \<longrightarrow>
      get_spread m = (Some (dec_round (lb - ba)), Some (dec_round (bb - la)))) \<and>
   get_spread (run_updates [(Some backpack_quote, Some lighter_quote)] OrderBookManager_init) =
     (Some 5, Some (- 7)) \<and>
   (determine_signal ls ss lthr sthr = ''LONG_BACKPACK'' \<longrightarrow> (\<exists>x. ls = Some x \<and> lthr < x)) \<and>
   (determine_signal ls ss lthr sthr = ''SHORT_BACKPACK'' \<longrightarrow> (\<exists>y. ss = Some y \<and> sthr < y)) \<and>
   (total_trades (trading_tick bp_ws lt_ws bp lt self) \<noteq> total_trades self \<longrightarrow>
      (\<exists>x. fst (get_spread (update_order_books bp_ws lt_ws (order_book_manager self))) = Some x
            \<and> long_threshold self < x) \<or>
      (\<exists>y. snd (get_spread (update_order_books bp_ws lt_ws (order_book_manager self))) = Some y
            \<and> short_threshold self < y)) \<and>
   determine_signal
     (fst (get_spread (run_updates [(Some backpack_quote, Some lighter_quote)]
        OrderBookManager_init)))
     (snd (get_spread (run_updates [(Some backpack_quote, Some lighter_quote)]
        OrderBookManager_init))) 5 5 = ''NONE'' \<and>
   get_spread (run_updates [(Some backpack_quote, Some lighter_quote_above)]
     OrderBookManager_init) = (Some (501 / 100), Some (- 7)) \<and>
   determine_signal
     (fst (get_spread (run_updates [(Some backpack_quote, Some lighter_quote_above)]
        OrderBookManager_init)))
     (snd (get_spread (run_updates [(Some backpack_quote, Some lighter_quote_above)]
        OrderBookManager_init))) 5 5 = ''LONG_BACKPACK''"
proof -
  have p: "m = run_updates feeds OrderBookManager_init \<and> is_ready m \<longrightarrow>
      lighter_best_bid m \<noteq> None \<and> backpack_best_ask m \<noteq> None \<and>
      backpack_best_bid m \<noteq> None \<and> lighter_best_ask m \<noteq> None"
    using reachable_invariant [of feeds] by blast
  have a: "m = run_updates feeds OrderBookManager_init \<and> is_ready m \<and>
    lighter_best_bid m = Some lb \<and> backpack_best_ask m = Some ba \<and>
    backpack_best_bid m = Some bb \<and> lighter_best_ask m = Some la \<longrightarrow>
      get_spread m = (Some (dec_round (lb - ba)), Some (dec_round (bb - la)))"
    using get_spread_reachable [of m feeds lb ba bb la] by blast
  note b = spread_at_threshold
  note c = spread_above_threshold
  have d: "determine_signal
     (fst (get_spread (run_updates [(Some backpack_quote, Some lighter_quote)]
        OrderBookManager_init)))
     (snd (get_spread (run_updates [(Some backpack_quote, Some lighter_quote)]
        OrderBookManager_init))) 5 5 = ''NONE''"
    unfolding b by (simp add: determine_signal_def)
  have e: "determine_signal
     (fst (get_spread (run_updates [(Some backpack_quote, Some lighter_quote_above)]
        OrderBookManager_init)))
     (snd (get_spread (run_updates [(Some backpack_quote, Some lighter_quote_above)]
        OrderBookManager_init))) 5 5 = ''LONG_BACKPACK''"
    unfolding c by (simp add: determine_signal_def)
  have f: "total_trades (trading_tick bp_ws lt_ws bp lt self) \<noteq> total_trades self \<longrightarrow>
      (\<exists>x. fst (get_spread (update_order_books bp_ws lt_ws (order_book_manager self))) = Some x
            \<and> long_threshold self < x) \<or>
      (\<exists>y. snd (get_spread (update_order_books bp_ws lt_ws (order_book_manager self))) = Some y
            \<and> short_threshold self < y)"
    using trading_tick_trade_needs_signal [of bp_ws lt_ws bp lt self] by blast
  from p a b c d e f determine_signal_long [of ls ss lthr sthr]
    determine_signal_short [of ls ss lthr sthr]
  show ?thesis by blast
qed

lemma tick_above_threshold:
  "total_trades (trading_tick (Some backpack_quote) (Some lighter_quote_above)
      filled_leg filled_leg example_bot) = 1"
proof -
  have m: "update_order_books (Some backpack_quote) (Some lighter_quote_above)
      (order_book_manager example_bot) =
      run_updates [(Some backpack_quote, Some lighter_quote_above)] OrderBookManager_init"
    by (simp add: example_bot_def)
  have can: "can_trade ''LONG_BACKPACK''
      (example_bot\<lparr>order_book_manager :=
         run_updates [(Some backpack_quote, Some lighter_quote_above)] OrderBookManager_init\<rparr>)"
    by (simp add: can_trade_def example_bot_def get_backpack_position_def Let_def dec_add_def
        dec_round_values del: run_updates.simps)
  have ready: "is_ready (run_updates [(Some backpack_quote, Some lighter_quote_above)]
      OrderBookManager_init)"
    unfolding manager_above_threshold by (simp add: is_ready_def)
  have sig: "determine_signal (Some (501 / 100)) (Some (- 7))
      (long_threshold example_bot) (short_threshold example_bot) = ''LONG_BACKPACK''"
    by (simp add: determine_signal_def example_bot_def)
  have tot: "total_trades (execute_arbitrage filled_leg filled_leg ''LONG_BACKPACK''
      (example_bot\<lparr>order_book_manager :=
         run_updates [(Some backpack_quote, Some lighter_quote_above)] OrderBookManager_init\<rparr>)) = 1"
    by (simp add: execute_arbitrage_success(1) [OF filled_legs_succeed] example_bot_def
        del: run_updates.simps)
  show ?thesis
    unfolding trading_tick_def m Let_def
    using ready can sig tot
    by (simp add: spread_above_threshold del: run_updates.simps)
qed

theorem get_spread_and_signal_witness:
  "is_ready (run_updates [(Some backpack_quote, Some lighter_quote_above)]
      OrderBookManager_init) \<and>
   lighter_best_bid (run_updates [(Some backpack_quote, Some lighter_quote_above)]
      OrderBookManager_init) = Some (10601 / 100) \<and>
   backpack_best_ask (run_updates [(Some backpack_quote, Some lighter_quote_above)]
      OrderBookManager_init) = Some 101 \<and>
   backpack_best_bid (run_updates [(Some backpack_quote, Some lighter_quote_above)]
      OrderBookManager_init) = Some 100 \<and>
   lighter_best_ask (run_updates [(Some backpack_quote, Some lighter_quote_above)]
      OrderBookManager_init) = Some 107 \<and>
   get_spread (run_updates [(Some backpack_quote, Some lighter_quote_above)]
      OrderBookManager_init) =
     (Some (dec_round (10601 / 100 - 101)), Some (dec_round (100 - 107))) \<and>
   dec_round (10601 / 100 - 101) = 501 / 100 \<and> dec_round (100 - 107) = - 7 \<and>
   determine_signal (Some (501 / 100)) (Some (- 7)) 5 5 = ''LONG_BACKPACK'' \<and>
   5 < (501 / 100 :: rat) \<and>
   total_trades (trading_tick (Some backpack_quote) (Some lighter_quote_above)
      filled_leg filled_leg example_bot) = 1 \<and>
   total_trades example_bot = 0 \<and>
   fst (get_spread (update_order_books (Some backpack_quote) (Some lighter_quote_above)
      (order_book_manager example_bot))) = Some (501 / 100) \<and>
   long_threshold example_bot < 501 / 100"
proof -
  let ?m = "run_updates [(Some backpack_quote, Some lighter_quote_above)]
      OrderBookManager_init"
  have ready: "is_ready ?m"
    unfolding manager_above_threshold by (simp add: is_ready_def)
  have lb: "lighter_best_bid ?m = Some (10601 / 100)"
    and ba: "backpack_best_ask ?m = Some 101"
    and bb: "backpack_best_bid ?m = Some 100" and la: "lighter_best_ask ?m = Some 107"
    by (simp_all only: manager_above_threshold OrderBookManager.simps)
  note inst = get_spread_and_signal [of ?m "[(Some backpack_quote, Some lighter_quote_above)]"
      "10601 / 100" 101 100 107 "Some (501 / 100)" "Some (- 7)" 5 5
      "Some backpack_quote" "Some lighter_quote_above" filled_leg filled_leg example_bot]
  from inst ready lb ba bb la
  have spread: "get_spread ?m =
     (Some (dec_round (10601 / 100 - 101)), Some (dec_round (100 - 107)))"
    by blast
  have v1: "dec_round (10601 / 100 - 101) = 501 / 100"
    by (simp add: dec_round_values)
  have v2: "dec_round (100 - 107) = - 7"
    by (simp add: dec_round_values dec_round_minus)
  have sig: "determine_signal (Some (501 / 100)) (Some (- 7)) 5 5 = ''LONG_BACKPACK''"
    by (simp add: determine_signal_def)
  have m: "update_order_books (Some backpack_quote) (Some lighter_quote_above)
      (order_book_manager example_bot) = ?m"
    by (simp add: example_bot_def)
  have sp: "fst (get_spread (update_order_books (Some backpack_quote) (Some lighter_quote_above)
      (order_book_manager example_bot))) = Some (501 / 100)"
    unfolding m spread_above_threshold by simp
  have thr: "long_threshold example_bot < 501 / 100" "total_trades example_bot = 0"
    by (simp_all add: example_bot_def)
  have lt: "5 < (501 / 100 :: rat)" by simp
  from ready lb ba bb la spread v1 v2 sig lt tick_above_threshold sp thr
  show ?thesis by blast
qed

subsection \<open>The position limit\<close>

lemma can_trade_unlimited: "max_position self = 0 \<Longrightarrow> can_trade d self"
  by (simp add: can_trade_def)

lemma can_trade_long:
  "max_position self \<noteq> 0 \<Longrightarrow>
   can_trade ''LONG_BACKPACK'' self =
     (dec_round (backpack_position (position_tracker self) + order_quantity self)
        \<le> max_position self)"
  by (simp add: can_trade_def get_backpack_position_def Let_def dec_add_def)

lemma can_trade_short:
  "max_position self \<noteq> 0 \<Longrightarrow> d \<noteq> ''LONG_BACKPACK'' \<Longrightarrow>
   can_trade d self =
     (dec_round \<bar>dec_round (backpack_position (position_tracker self) - order_quantity self)\<bar>
        \<le> max_position self)"
  by (simp add: can_trade_def get_backpack_position_def Let_def dec_sub_def dec_abs_def)

lemma can_trade_long_abs:
  "0 < max_position self \<Longrightarrow>
   - max_position self \<le>
     dec_round (backpack_position (position_tracker self) + order_quantity self) \<Longrightarrow>
   can_trade ''LONG_BACKPACK'' self =
     (\<bar>dec_round (backpack_position (position_tracker self) + order_quantity self)\<bar>
        \<le> max_position self)"
  by (auto simp add: can_trade_long)

lemma can_trade_boundary:
  "can_trade ''LONG_BACKPACK'' example_bot \<and>
   \<not> can_trade ''LONG_BACKPACK'' (example_bot\<lparr>order_quantity := 6 / 100\<rparr>)"
  by (simp add: can_trade_def example_bot_def get_backpack_position_def Let_def dec_add_def
      dec_round_values)

text \<open>
  C2 at a Backpack position of -1 with cap 0.1 and order size 0.05: the long trade is
  allowed by \<^verbatim>\<open>_can_trade\<close>, although the absolute position after it, 0.95, is above
  the cap. The long branch compares the signed sum with the cap; the short branch
  compares the absolute difference.
\<close>

theorem can_trade_long_short_exposure:
  "max_position short_exposed_bot = 1 / 10 \<and>
   order_quantity short_exposed_bot = 5 / 100 \<and>
   get_backpack_position (position_tracker short_exposed_bot) = - 1 \<and>
   can_trade ''LONG_BACKPACK'' short_exposed_bot \<and>
   \<not> \<bar>get_backpack_position (position_tracker short_exposed_bot) +
        order_quantity short_exposed_bot\<bar> \<le> max_position short_exposed_bot"
  by (simp add: can_trade_def short_exposed_bot_def example_bot_def
      get_backpack_position_def Let_def dec_add_def dec_round_values dec_round_minus)

subsection \<open>The best levels of the Lighter book\<close>

lemma py_max_key_mem: "py_max_key key b xs \<in> set (b # xs)"
  by (induction xs arbitrary: b) (auto split: if_splits)

lemma py_max_key_ge_start: "key b \<le> key (py_max_key key b xs)"
proof (induction xs arbitrary: b)
  case Nil
  then show ?case by simp
next
  case (Cons x xs)
  show ?case
  proof (cases "key b < key x")
    case True
    with Cons.IH [of x] show ?thesis by simp
  next
    case False
    with Cons.IH [of b] show ?thesis by simp
  qed
qed

lemma py_max_key_ge: "y \<in> set (b # xs) \<Longrightarrow> key y \<le> key (py_max_key key b xs)"
proof (induction xs arbitrary: b)
  case Nil
  then show ?case by simp
next
  case (Cons x xs)
  show ?case
  proof (cases "key b < key x")
    case True
    from Cons.prems consider "y = b" | "y \<in> set (x # xs)" by auto
    then show ?thesis
    proof cases
      case 1
      with True py_max_key_ge_start [of key x xs] show ?thesis by simp
    next
      case 2
      with True Cons.IH [of x] show ?thesis by simp
    qed
  next
    case False
    from Cons.prems consider "y = x" | "y \<in> set (b # xs)" by auto
    then show ?thesis
    proof cases
      case 1
      with False py_max_key_ge_start [of key b xs] show ?thesis by simp
    next
      case 2
      with False Cons.IH [of b] show ?thesis by simp
    qed
  qed
qed

lemma py_min_key_mem: "py_min_key key b xs \<in> set (b # xs)"
  by (induction xs arbitrary: b) (auto split: if_splits)

lemma py_min_key_le_start: "key (py_min_key key b xs) \<le> key b"
proof (induction xs arbitrary: b)
  case Nil
  then show ?case by simp
next
  case (Cons x xs)
  show ?case
  proof (cases "key x < key b")
    case True
    with Cons.IH [of x] show ?thesis by simp
  next
    case False
    with Cons.IH [of b] show ?thesis by simp
  qed
qed

lemma py_min_key_le: "y \<in> set (b # xs) \<Longrightarrow> key (py_min_key key b xs) \<le> key y"
proof (induction xs arbitrary: b)
  case Nil
  then show ?case by simp
next
  case (Cons x xs)
  show ?case
  proof (cases "key x < key b")
    case True
    from Cons.prems consider "y = b" | "y \<in> set (x # xs)" by auto
    then show ?thesis
    proof cases
      case 1
      with True py_min_key_le_start [of key x xs] show ?thesis by simp
    next
      case 2
      with True Cons.IH [of x] show ?thesis by simp
    qed
  next
    case False
    from Cons.prems consider "y = x" | "y \<in> set (b # xs)" by auto
    then show ?thesis
    proof cases
      case 1
      with False py_min_key_le_start [of key b xs] show ?thesis by simp
    next
      case 2
      with False Cons.IH [of b] show ?thesis by simp
    qed
  qed
qed

lemma py_max_key_Max: "fst (py_max_key fst l ls) = Max (fst ` set (l # ls))"
proof (rule sym, rule Max_eqI)
  show "finite (fst ` set (l # ls))" by simp
  show "y \<le> fst (py_max_key fst l ls)" if "y \<in> fst ` set (l # ls)" for y
  proof -
    from that obtain z where y: "y = fst z" and z: "z \<in> set (l # ls)" by (rule imageE)
    from py_max_key_ge [OF z, of fst] y show ?thesis by simp
  qed
  show "fst (py_max_key fst l ls) \<in> fst ` set (l # ls)"
    using py_max_key_mem [of fst l ls] by (rule imageI)
qed

lemma py_min_key_Min: "fst (py_min_key fst l ls) = Min (fst ` set (l # ls))"
proof (rule sym, rule Min_eqI)
  show "finite (fst ` set (l # ls))" by simp
  show "fst (py_min_key fst l ls) \<le> y" if "y \<in> fst ` set (l # ls)" for y
  proof -
    from that obtain z where y: "y = fst z" and z: "z \<in> set (l # ls)" by (rule imageE)
    from py_min_key_le [OF z, of fst] y show ?thesis by simp
  qed
  show "fst (py_min_key fst l ls) \<in> fst ` set (l # ls)"
    using py_min_key_mem [of fst l ls] by (rule imageI)
qed

lemma set_liquid_levels:
  "set (liquid_levels ob) = {(p, s). (p, s) \<in> set ob \<and> 10000 \<le> fl (fl s * fl p)}"
  by (auto simp add: liquid_levels_def float_mul_def)

lemma liquid_price_nonzero: "(p, s) \<in> set (liquid_levels ob) \<Longrightarrow> p \<noteq> 0"
proof
  assume mem: "(p, s) \<in> set (liquid_levels ob)" and "p = 0"
  then have "10000 \<le> float_mul s 0" by (simp add: liquid_levels_def)
  then show False by (simp add: float_mul_zero_price)
qed

lemma liquid_levels_empty_book: "liquid_levels [] = []"
  by (simp add: liquid_levels_def)

lemma best_bid_level:
  "fst (get_best_levels self) =
     (if liquid_levels (bids self) = [] then None
      else Some (Max (fst ` set (liquid_levels (bids self)))))"
proof (cases "liquid_levels (bids self)")
  case Nil
  then show ?thesis by (simp add: get_best_levels_def Let_def)
next
  case (Cons l ls)
  then have "bids self \<noteq> []" by (auto simp add: liquid_levels_def)
  with Cons show ?thesis
    by (simp add: get_best_levels_def Let_def py_max_key_Max del: py_max_key.simps)
qed

lemma best_ask_level:
  "snd (get_best_levels self) =
     (if liquid_levels (asks self) = [] then None
      else Some (Min (fst ` set (liquid_levels (asks self)))))"
proof (cases "liquid_levels (asks self)")
  case Nil
  then show ?thesis by (simp add: get_best_levels_def Let_def)
next
  case (Cons l ls)
  then have "asks self \<noteq> []" by (auto simp add: liquid_levels_def)
  with Cons show ?thesis
    by (simp add: get_best_levels_def Let_def py_min_key_Min del: py_min_key.simps)
qed

lemma Max_liquid_nonzero:
  assumes "liquid_levels ob \<noteq> []"
  shows "Max (fst ` set (liquid_levels ob)) \<noteq> 0"
proof -
  have "Max (fst ` set (liquid_levels ob)) \<in> fst ` set (liquid_levels ob)"
    using assms by (intro Max_in) auto
  then show ?thesis using liquid_price_nonzero [of _ _ ob] by auto
qed

lemma Min_liquid_nonzero:
  assumes "liquid_levels ob \<noteq> []"
  shows "Min (fst ` set (liquid_levels ob)) \<noteq> 0"
proof -
  have "Min (fst ` set (liquid_levels ob)) \<in> fst ` set (liquid_levels ob)"
    using assms by (intro Min_in) auto
  then show ?thesis using liquid_price_nonzero [of _ _ ob] by auto
qed

lemma handle_update_best_bid:
  assumes "snapshot_loaded self"
  shows "best_bid (handle_message (UpdateOrderBook bs as) self) =
     (if liquid_levels (update_order_book bs (bids self)) = [] then best_bid self
      else Some (Max (fst ` set (liquid_levels (update_order_book bs (bids self))))))"
  using assms
  by (simp add: handle_message_def Let_def best_bid_level best_ask_level
      Max_liquid_nonzero Min_liquid_nonzero)

lemma handle_update_best_ask:
  assumes "snapshot_loaded self"
  shows "best_ask (handle_message (UpdateOrderBook bs as) self) =
     (if liquid_levels (update_order_book as (asks self)) = [] then best_ask self
      else Some (Min (fst ` set (liquid_levels (update_order_book as (asks self))))))"
  using assms
  by (simp add: handle_message_def Let_def best_bid_level best_ask_level
      Max_liquid_nonzero Min_liquid_nonzero)

lemma handle_update_books:
  assumes "snapshot_loaded self"
  shows "bids (handle_message (UpdateOrderBook bs as) self) = update_order_book bs (bids self)"
    and "asks (handle_message (UpdateOrderBook bs as) self) = update_order_book as (asks self)"
  using assms
  by (simp_all add: handle_message_def Let_def)

lemma handle_snapshot_keeps_best:
  "best_bid (handle_message (SubscribedOrderBook off bs as) self) = best_bid self \<and>
   best_ask (handle_message (SubscribedOrderBook off bs as) self) = best_ask self"
  by (simp add: handle_message_def)

lemma handle_update_before_snapshot:
  "\<not> snapshot_loaded self \<Longrightarrow> handle_message (UpdateOrderBook bs as) self = self"
  by (simp add: handle_message_def)

text \<open>
  C9, amended. In the Lighter manager, the levels that count are those whose notional
  value as the code computes it, the float product of size and price (the exact product
  of the two doubles rounded to 53 significant bits), is at least 10000. On a book
  update (after the snapshot) the best bid becomes the highest price among the bid
  levels that count and the best ask the lowest price among the ask levels that count;
  when no level of a side counts, the value published before for that side stays as it
  was and is not cleared.
\<close>

theorem lighter_best_levels:
  "set (liquid_levels ob) = {(p, s). (p, s) \<in> set ob \<and> 10000 \<le> fl (fl s * fl p)} \<and>
   (snapshot_loaded self \<longrightarrow>
      best_bid (handle_message (UpdateOrderBook bs as) self) =
        (if liquid_levels (bids (handle_message (UpdateOrderBook bs as) self)) = []
         then best_bid self
         else Some (Max (fst ` set (liquid_levels
                      (bids (handle_message (UpdateOrderBook bs as) self)))))) \<and>
      best_ask (handle_message (UpdateOrderBook bs as) self) =
        (if liquid_levels (asks (handle_message (UpdateOrderBook bs as) self)) = []
         then best_ask self
         else Some (Min (fst ` set (liquid_levels
                      (asks (handle_message (UpdateOrderBook bs as) self)))))))"
  by (simp add: handle_update_best_bid handle_update_best_ask handle_update_books
      set_liquid_levels)

theorem lighter_best_levels_witness:
  "snapshot_loaded example_lighter_ws \<and>
   bids (handle_message (UpdateOrderBook [Some (99, 150)] [Some (102, 0)]) example_lighter_ws) =
     [(100, 200), (101, 50), (99, 150)] \<and>
   asks (handle_message (UpdateOrderBook [Some (99, 150)] [Some (102, 0)]) example_lighter_ws) =
     [(103, 20)] \<and>
   best_bid (handle_message (UpdateOrderBook [Some (99, 150)] [Some (102, 0)]) example_lighter_ws) =
     Some 100 \<and>
   best_ask (handle_message (UpdateOrderBook [Some (99, 150)] [Some (102, 0)]) example_lighter_ws) =
     Some 105"
proof -
  have loaded: "snapshot_loaded example_lighter_ws"
    by (simp add: example_lighter_ws_def)
  have "bids (handle_message (UpdateOrderBook [Some (99, 150)] [Some (102, 0)])
             example_lighter_ws) = update_order_book [Some (99, 150)] (bids example_lighter_ws)"
    by (rule handle_update_books(1) [OF loaded])
  then have b: "bids (handle_message (UpdateOrderBook [Some (99, 150)] [Some (102, 0)])
             example_lighter_ws) = [(100, 200), (101, 50), (99, 150)]"
    by (simp add: example_lighter_ws_def)
  have "asks (handle_message (UpdateOrderBook [Some (99, 150)] [Some (102, 0)])
             example_lighter_ws) = update_order_book [Some (102, 0)] (asks example_lighter_ws)"
    by (rule handle_update_books(2) [OF loaded])
  then have a: "asks (handle_message (UpdateOrderBook [Some (99, 150)] [Some (102, 0)])
             example_lighter_ws) = [(103, 20)]"
    by (simp add: example_lighter_ws_def)
  have lb: "liquid_levels [(100, 200), (101, 50), (99, 150)] = [(100 :: rat, 200 :: rat), (99, 150)]"
    by code_simp
  have la: "liquid_levels [(103 :: rat, 20 :: rat)] = []"
    by code_simp
  have old: "best_ask example_lighter_ws = Some 105"
    by (simp add: example_lighter_ws_def)
  from lighter_best_levels [of "[]" example_lighter_ws "[Some (99, 150)]" "[Some (102, 0)]"]
    loaded
  show ?thesis by (simp add: a b la lb old)
qed

text \<open>
  C9, as stated, fails at the cutoff. A bid level of price 0.09999999999999999 and size
  100000 has a notional value below 10000, yet its float product is exactly 10000.0:
  the level counts, and it is published as the best bid in place of 98.
\<close>

theorem thin_level_counterexample:
  "snapshot_loaded empty_lighter_ws \<and> best_bid empty_lighter_ws = Some 98 \<and>
   thin_level = (9999999999999999 / 10 ^ 17, 100000) \<and>
   bids (handle_message (UpdateOrderBook [Some thin_level] []) empty_lighter_ws) = [thin_level] \<and>
   snd thin_level * fst thin_level < 10000 \<and>
   best_bid (handle_message (UpdateOrderBook [Some thin_level] []) empty_lighter_ws) =
     Some (9999999999999999 / 10 ^ 17)"
proof -
  have loaded: "snapshot_loaded empty_lighter_ws" and old: "best_bid empty_lighter_ws = Some 98"
    by (simp_all add: empty_lighter_ws_def)
  have "bids (handle_message (UpdateOrderBook [Some thin_level] []) empty_lighter_ws) =
      update_order_book [Some thin_level] (bids empty_lighter_ws)"
    by (rule handle_update_books(1) [OF loaded])
  then have b: "bids (handle_message (UpdateOrderBook [Some thin_level] []) empty_lighter_ws) =
      [thin_level]"
    by (simp add: empty_lighter_ws_def thin_level_def)
  have liq: "liquid_levels [thin_level] = [thin_level]"
    by code_simp
  have exact: "snd thin_level * fst thin_level < 10000"
    by (simp add: thin_level_def)
  have "best_bid (handle_message (UpdateOrderBook [Some thin_level] []) empty_lighter_ws) =
      Some (fst thin_level)"
    using handle_update_best_bid [OF loaded, of "[Some thin_level]" "[]"] b liq
      handle_update_books(1) [OF loaded, of "[Some thin_level]" "[]"]
    by simp
  then have best: "best_bid (handle_message (UpdateOrderBook [Some thin_level] [])
      empty_lighter_ws) = Some (9999999999999999 / 10 ^ 17)"
    by (simp only: thin_level_def fst_conv)
  from loaded old b exact best show ?thesis by (simp add: thin_level_def)
qed

subsection \<open>Reconnect backoff\<close>

lemma lighter_connect_iter_eq: "lighter_connect_iter ev s = backpack_connect_iter ev s"
  by (simp add: lighter_connect_iter_def backpack_connect_iter_def)

lemma lighter_connect_eq: "lighter_connect evs s = backpack_connect evs s"
  by (induction evs arbitrary: s) (simp_all add: lighter_connect_iter_eq)

lemma connect_failed_not_running:
  "\<not> running s \<Longrightarrow> backpack_connect_iter ConnectFailed s = s"
  by (simp add: backpack_connect_iter_def backoff_sleep_def)

lemma connect_failures_not_running:
  "\<not> running s \<Longrightarrow> backpack_connect (replicate n ConnectFailed) s = s"
  by (induction n) (simp_all add: connect_failed_not_running)

lemma connect_failed_running:
  "running s \<Longrightarrow>
   backpack_connect_iter ConnectFailed s =
     s\<lparr>slept := slept s @ [reconnect_delay s],
       reconnect_delay := min (reconnect_delay s * 2) 30\<rparr>"
  by (simp add: backpack_connect_iter_def backoff_sleep_def max_reconnect_delay_def)

lemma session_ended_iter:
  "backpack_connect_iter SessionEnded s =
     s\<lparr>running := True, reconnect_delay := 2, slept := slept s @ [1]\<rparr>"
  by (simp add: backpack_connect_iter_def backoff_sleep_def max_reconnect_delay_def)

lemma capped_double: "min (min (d * 2) 30 * 2 ^ i) (30 :: nat) = min (d * 2 ^ Suc i) 30"
proof (cases "d * 2 \<le> 30")
  case True
  then show ?thesis by (simp add: mult.assoc min_def)
next
  case False
  then have big: "30 < d * 2" by simp
  then have l: "min (d * 2) 30 = 30" by simp
  have "(30 :: nat) * 1 \<le> 30 * 2 ^ i" by (rule mult_le_mono2) simp
  then have l2: "min (30 * 2 ^ i) (30 :: nat) = 30" by simp
  have "(1 :: nat) \<le> 2 ^ i" by simp
  then have "d * 2 * 1 \<le> d * 2 * 2 ^ i" by (rule mult_le_mono2)
  then have "d * 2 \<le> d * 2 ^ Suc i" by (simp only: power_Suc mult.assoc mult_1_right)
  with big have "30 \<le> d * 2 ^ Suc i" by (rule order_trans [OF less_imp_le])
  then have r: "min (d * 2 ^ Suc i) 30 = 30" by (rule min_absorb2)
  show ?thesis unfolding l l2 r ..
qed

lemma backoff_after_failures:
  "running s \<Longrightarrow> reconnect_delay s \<le> 30 \<Longrightarrow>
   slept (backpack_connect (replicate n ConnectFailed) s) =
     slept s @ map (\<lambda>i. min (reconnect_delay s * 2 ^ i) 30) [0..<n]"
proof (induction n arbitrary: s)
  case 0
  then show ?case by simp
next
  case (Suc n)
  let ?s = "backpack_connect_iter ConnectFailed s"
  from Suc.prems have s': "?s = s\<lparr>slept := slept s @ [reconnect_delay s],
       reconnect_delay := min (reconnect_delay s * 2) 30\<rparr>"
    by (simp add: connect_failed_running)
  then have "running ?s" "reconnect_delay ?s \<le> 30" using Suc.prems by simp_all
  from Suc.IH [OF this] s' Suc.prems(2)
  show ?case
    by (simp add: capped_double map_upt_Suc del: upt_Suc power_Suc)
qed

lemma backoff_after_session:
  "slept (backpack_connect (SessionEnded # replicate n ConnectFailed) s) =
     slept s @ map (\<lambda>i. min (2 ^ i) 30) [0..<Suc n]"
proof -
  let ?s = "backpack_connect_iter SessionEnded s"
  have s': "?s = s\<lparr>running := True, reconnect_delay := 2, slept := slept s @ [1]\<rparr>"
    by (rule session_ended_iter)
  then have "running ?s" "reconnect_delay ?s \<le> 30" by simp_all
  from backoff_after_failures [OF this, of n] s'
  show ?thesis
    by (simp add: map_upt_Suc del: upt_Suc)
qed

lemma backoff_sequence_values:
  "map (\<lambda>i. min (2 ^ i) (30 :: nat)) [0..<7] = [1, 2, 4, 8, 16, 30, 30]"
  by (simp add: upt_rec)

text \<open>
  Once a session has been established the sleeps follow the doubling sequence capped at
  30, the first of them being 1 since the delay was reset when the session began.
\<close>

lemma backoff_once_running:
  "slept (backpack_connect (SessionEnded # replicate 6 ConnectFailed) connect_start) =
     [1, 2, 4, 8, 16, 30, 30] \<and>
   slept (lighter_connect (SessionEnded # replicate 6 ConnectFailed) connect_start) =
     [1, 2, 4, 8, 16, 30, 30] \<and>
   slept (backpack_connect [SessionEnded, ConnectFailed, ConnectFailed] connect_start) = [1, 2, 4]"
proof -
  have "slept (backpack_connect (SessionEnded # replicate 6 ConnectFailed) connect_start) =
     slept connect_start @ map (\<lambda>i. min (2 ^ i) 30) [0..<Suc 6]"
    by (rule backoff_after_session)
  then have a: "slept (backpack_connect (SessionEnded # replicate 6 ConnectFailed) connect_start) =
     [1, 2, 4, 8, 16, 30, 30]"
    using backoff_sequence_values by (simp add: connect_start_def del: upt_Suc)
  have two: "[SessionEnded, ConnectFailed, ConnectFailed] = SessionEnded # replicate 2 ConnectFailed"
    by (simp add: numeral_2_eq_2)
  have "slept (backpack_connect (SessionEnded # replicate 2 ConnectFailed) connect_start) =
     slept connect_start @ map (\<lambda>i. min (2 ^ i) 30) [0..<Suc 2]"
    by (rule backoff_after_session)
  then have b: "slept (backpack_connect [SessionEnded, ConnectFailed, ConnectFailed] connect_start) =
     [1, 2, 4]"
    unfolding two by (simp add: connect_start_def upt_rec)
  from a b show ?thesis by (simp add: lighter_connect_eq)
qed

text \<open>
  C6 at a manager that has never been connected: \<^verbatim>\<open>running\<close> is still false, so
  three (or six) consecutive failed connection attempts are followed by no sleep at
  all, in either manager, and the delay stays 1. The claim gives the backoffs 1, 2, 4.
\<close>

theorem reconnect_without_backoff_before_first_session:
  "running connect_start = False \<and>
   slept (backpack_connect [ConnectFailed, ConnectFailed, ConnectFailed] connect_start) = [] \<and>
   reconnect_delay (backpack_connect [ConnectFailed, ConnectFailed, ConnectFailed] connect_start) = 1 \<and>
   slept (lighter_connect [ConnectFailed, ConnectFailed, ConnectFailed] connect_start) = [] \<and>
   reconnect_delay (lighter_connect [ConnectFailed, ConnectFailed, ConnectFailed] connect_start) = 1 \<and>
   slept (backpack_connect (replicate 6 ConnectFailed) connect_start) = [] \<and>
   slept (lighter_connect (replicate 6 ConnectFailed) connect_start) = []"
proof -
  have nr: "\<not> running connect_start" by (simp add: connect_start_def)
  have three: "[ConnectFailed, ConnectFailed, ConnectFailed] = replicate 3 ConnectFailed"
    by (simp add: numeral_3_eq_3)
  from nr show ?thesis
    unfolding three lighter_connect_eq
    by (simp add: connect_failures_not_running connect_start_def)
qed

subsection \<open>Retry exhaustion\<close>

lemma retry_call_success:
  "operation k = Inr v \<Longrightarrow> retry_call pol operation k w = (Inr v, k, w)"
  by (simp add: retry_call.simps [of pol operation k w])

lemma retry_call_not_retryable:
  "operation k = Inl e \<Longrightarrow> \<not> isinstance_exn e (retry_if_exception_type pol) \<Longrightarrow>
   retry_call pol operation k w = (Inl e, k, w)"
  by (simp add: retry_call.simps [of pol operation k w])

lemma retry_call_again:
  "operation k = Inl e \<Longrightarrow> isinstance_exn e (retry_if_exception_type pol) \<Longrightarrow>
   k < stop_after_attempt pol \<Longrightarrow>
   retry_call pol operation k w =
     retry_call pol operation (Suc k)
       (w @ [wait_exponential (wait_min pol) (wait_max pol) k])"
  by (simp add: retry_call.simps [of pol operation k w])

lemma retry_call_give_up:
  "operation k = Inl e \<Longrightarrow> isinstance_exn e (retry_if_exception_type pol) \<Longrightarrow>
   stop_after_attempt pol \<le> k \<Longrightarrow> retry_error_callback pol = Some d \<Longrightarrow>
   retry_call pol operation k w = (Inr d, k, w)"
  by (simp add: retry_call.simps [of pol operation k w])

lemma retry_call_all_fail:
  assumes fail: "\<forall>k. \<exists>e. operation k = Inl e \<and> isinstance_exn e (retry_if_exception_type pol)"
    and cb: "retry_error_callback pol = Some d"
  shows "k \<le> stop_after_attempt pol \<Longrightarrow>
         retry_call pol operation k w =
           (Inr d, stop_after_attempt pol,
            w @ map (wait_exponential (wait_min pol) (wait_max pol)) [k..<stop_after_attempt pol])"
proof (induction "stop_after_attempt pol - k" arbitrary: k w)
  case 0
  then have k: "k = stop_after_attempt pol" by simp
  from fail obtain e where e: "operation k = Inl e"
    "isinstance_exn e (retry_if_exception_type pol)" by blast
  from retry_call_give_up [of operation k e pol d w] e cb k show ?case by simp
next
  case (Suc n)
  then have lt: "k < stop_after_attempt pol" by simp
  from fail obtain e where e: "operation k = Inl e"
    "isinstance_exn e (retry_if_exception_type pol)" by blast
  from Suc.hyps(2) have n: "n = stop_after_attempt pol - Suc k" by simp
  from lt have le: "Suc k \<le> stop_after_attempt pol" by simp
  from Suc.hyps(1) [OF n le] retry_call_again [of operation k e pol w] e lt
  show ?case by (simp add: upt_conv_Cons)
qed

lemma query_retry_all_fail:
  assumes "\<forall>k. \<exists>e. operation k = Inl e \<and> isinstance_exn e exception_type"
    and "1 \<le> max_attempts"
  shows "query_retry d exception_type max_attempts mn mx rr operation =
           (Inr d, max_attempts, map (wait_exponential mn mx) [1..<max_attempts])"
  using retry_call_all_fail [of operation
      "\<lparr>stop_after_attempt = max_attempts, wait_min = mn, wait_max = mx,
        retry_if_exception_type = exception_type,
        retry_error_callback = Some d, reraise = rr\<rparr>" d 1 "[]"] assms
  by (simp add: query_retry_def)

lemma default_waits: "map (wait_exponential 1 10) [1..<5] = [1, 2, 4, 8]"
  by (simp add: upt_rec wait_exponential_def)

lemma isinstance_Exception: "isinstance_exn e [''Exception'']"
  by (simp add: isinstance_exn_def)

lemma query_retry_defaults_all_fail:
  assumes "\<forall>k. \<exists>e. operation k = Inl e"
  shows "query_retry_defaults d operation = (Inr d, 5, [1, 2, 4, 8])"
proof -
  from assms have "\<forall>k. \<exists>e. operation k = Inl e \<and> isinstance_exn e [''Exception'']"
    by (simp add: isinstance_Exception)
  from query_retry_all_fail [OF this, of 5 d 1 10 False] default_waits
  show ?thesis by (simp add: query_retry_defaults_def)
qed

lemma query_retry_defaults_never_raises:
  "\<exists>v. fst (query_retry_defaults d operation) = Inr v"
proof -
  let ?pol = "\<lparr>stop_after_attempt = 5, wait_min = 1, wait_max = 10,
       retry_if_exception_type = [''Exception''],
       retry_error_callback = Some d, reraise = False\<rparr>"
  have "k \<le> 5 \<Longrightarrow> \<exists>v. fst (retry_call ?pol operation k w) = Inr v" for k w
  proof (induction "5 - k" arbitrary: k w)
    case 0
    then have k: "stop_after_attempt ?pol \<le> k" by simp
    show ?case
    proof (cases "operation k")
      case (Inl e)
      from retry_call_give_up [of operation k e ?pol d w] Inl k
      show ?thesis by (simp add: isinstance_Exception)
    next
      case (Inr v)
      from retry_call_success [of operation k v ?pol w] Inr show ?thesis by simp
    qed
  next
    case (Suc n)
    then have lt: "k < stop_after_attempt ?pol" and n: "n = 5 - Suc k" and le: "Suc k \<le> 5"
      by simp_all
    show ?case
    proof (cases "operation k")
      case (Inl e)
      from retry_call_again [of operation k e ?pol w] Inl lt
      have "retry_call ?pol operation k w =
              retry_call ?pol operation (Suc k) (w @ [wait_exponential 1 10 k])"
        by (simp add: isinstance_Exception)
      with Suc.hyps(1) [OF n le] show ?thesis by simp
    next
      case (Inr v)
      from retry_call_success [of operation k v ?pol w] Inr show ?thesis by simp
    qed
  qed
  from this [of 1 "[]"] show ?thesis
    by (simp add: query_retry_defaults_def query_retry_def)
qed

text \<open>
  C5. An operation under \<^verbatim>\<open>query_retry\<close> with five attempts and a default value that
  raises a retryable exception at every call is called exactly five times, and the
  wrapped call returns the default instead of raising. The defaults of the clients are
  (0, 0) for \<^verbatim>\<open>fetch_bbo_prices\<close> and 0 for \<^verbatim>\<open>get_position\<close>, on both exchanges,
  and with their default waits the four sleeps are 1, 2, 4 and 8 seconds.
\<close>

theorem query_retry_exhaustion:
  "((\<forall>k. \<exists>e. operation k = Inl e \<and> isinstance_exn e exception_type) \<longrightarrow>
      query_retry d exception_type 5 mn mx rr operation =
        (Inr d, 5, map (wait_exponential mn mx) [1, 2, 3, 4])) \<and>
   ((\<forall>k. \<exists>e. lighter_fetch_bbo_prices_body (lt_ws_at k) = Inl e) \<longrightarrow>
      lighter_fetch_bbo_prices lt_ws_at = (Inr (0, 0), 5, [1, 2, 4, 8])) \<and>
   ((\<forall>k. \<exists>e. backpack_fetch_bbo_prices_body (bp_ws_at k) (depth_at k) = Inl e) \<longrightarrow>
      backpack_fetch_bbo_prices bp_ws_at depth_at = (Inr (0, 0), 5, [1, 2, 4, 8])) \<and>
   ((\<forall>k. \<exists>e. backpack_get_position_body contract_id (positions_at k) = Inl e) \<longrightarrow>
      backpack_get_position contract_id positions_at = (Inr 0, 5, [1, 2, 4, 8])) \<and>
   ((\<forall>k. \<exists>e. lighter_get_position_body ticker (response_at k) = Inl e) \<longrightarrow>
      lighter_get_position ticker response_at = (Inr 0, 5, [1, 2, 4, 8]))"
proof -
  have upt: "[1..<5] = [1, 2, 3, 4 :: nat]" by (simp add: upt_rec)
  have a: "(\<forall>k. \<exists>e. operation k = Inl e \<and> isinstance_exn e exception_type) \<longrightarrow>
      query_retry d exception_type 5 mn mx rr operation =
        (Inr d, 5, map (wait_exponential mn mx) [1, 2, 3, 4])"
    using query_retry_all_fail [of operation exception_type 5 d mn mx rr] upt by simp
  have b: "(\<forall>k. \<exists>e. lighter_fetch_bbo_prices_body (lt_ws_at k) = Inl e) \<longrightarrow>
      lighter_fetch_bbo_prices lt_ws_at = (Inr (0, 0), 5, [1, 2, 4, 8])"
    unfolding lighter_fetch_bbo_prices_def
    using query_retry_defaults_all_fail [of "\<lambda>k. lighter_fetch_bbo_prices_body (lt_ws_at k)"]
    by blast
  have c: "(\<forall>k. \<exists>e. backpack_fetch_bbo_prices_body (bp_ws_at k) (depth_at k) = Inl e) \<longrightarrow>
      backpack_fetch_bbo_prices bp_ws_at depth_at = (Inr (0, 0), 5, [1, 2, 4, 8])"
    unfolding backpack_fetch_bbo_prices_def
    using query_retry_defaults_all_fail
      [of "\<lambda>k. backpack_fetch_bbo_prices_body (bp_ws_at k) (depth_at k)"]
    by blast
  have d: "(\<forall>k. \<exists>e. backpack_get_position_body contract_id (positions_at k) = Inl e) \<longrightarrow>
      backpack_get_position contract_id positions_at = (Inr 0, 5, [1, 2, 4, 8])"
    unfolding backpack_get_position_def
    using query_retry_defaults_all_fail
      [of "\<lambda>k. backpack_get_position_body contract_id (positions_at k)"]
    by blast
  have e: "(\<forall>k. \<exists>e. lighter_get_position_body ticker (response_at k) = Inl e) \<longrightarrow>
      lighter_get_position ticker response_at = (Inr 0, 5, [1, 2, 4, 8])"
    unfolding lighter_get_position_def
    using query_retry_defaults_all_fail
      [of "\<lambda>k. lighter_get_position_body ticker (response_at k)"]
    by blast
  from a b c d e show ?thesis by blast
qed

theorem query_retry_exhaustion_witness:
  "(\<forall>k. \<exists>e. (\<lambda>k. Inl (Exn ''TimeoutError'' ''timed out'') :: exn + decimal) k = Inl e \<and>
             isinstance_exn e [''TimeoutError'']) \<and>
   query_retry (0 :: decimal) [''TimeoutError''] 5 1 10 False
     (\<lambda>k. Inl (Exn ''TimeoutError'' ''timed out'')) = (Inr 0, 5, [1, 2, 4, 8]) \<and>
   (\<forall>k. \<exists>e. lighter_fetch_bbo_prices_body (never_ready k) = Inl e) \<and>
   lighter_fetch_bbo_prices never_ready = (Inr (0, 0), 5, [1, 2, 4, 8]) \<and>
   (\<forall>k. \<exists>e. backpack_fetch_bbo_prices_body (never_ready k) (failing_rest k) = Inl e) \<and>
   backpack_fetch_bbo_prices never_ready failing_rest = (Inr (0, 0), 5, [1, 2, 4, 8]) \<and>
   (\<forall>k. \<exists>e. backpack_get_position_body ''BTC_USDC_PERP'' (failing_rest k) = Inl e) \<and>
   backpack_get_position ''BTC_USDC_PERP'' failing_rest = (Inr 0, 5, [1, 2, 4, 8]) \<and>
   (\<forall>k. \<exists>e. lighter_get_position_body ''BTC'' (failing_rest k) = Inl e) \<and>
   lighter_get_position ''BTC'' failing_rest = (Inr 0, 5, [1, 2, 4, 8])"
proof -
  have a: "\<forall>k. \<exists>e. (\<lambda>k. Inl (Exn ''TimeoutError'' ''timed out'') :: exn + decimal) k = Inl e \<and>
             isinstance_exn e [''TimeoutError'']"
    by (simp add: isinstance_exn_def)
  have b: "\<forall>k. \<exists>e. lighter_fetch_bbo_prices_body (never_ready k) = Inl e"
    by (simp add: lighter_fetch_bbo_prices_body_def never_ready_def)
  have c: "\<forall>k. \<exists>e. backpack_fetch_bbo_prices_body (never_ready k) (failing_rest k) = Inl e"
    by (simp add: backpack_fetch_bbo_prices_body_def never_ready_def failing_rest_def)
  have d: "\<forall>k. \<exists>e. backpack_get_position_body ''BTC_USDC_PERP'' (failing_rest k) = Inl e"
    by (simp add: backpack_get_position_body_def failing_rest_def)
  have e: "\<forall>k. \<exists>e. lighter_get_position_body ''BTC'' (failing_rest k) = Inl e"
    by (simp add: lighter_get_position_body_def failing_rest_def)
  have w: "map (wait_exponential 1 10) [1, 2, 3, 4] = [1, 2, 4, 8]"
    by (simp add: wait_exponential_def)
  from query_retry_exhaustion [where operation = "\<lambda>k. Inl (Exn ''TimeoutError'' ''timed out'')"
      and exception_type = "[''TimeoutError'']" and d = "0 :: decimal" and mn = 1 and mx = 10
      and rr = False and lt_ws_at = never_ready and bp_ws_at = never_ready
      and depth_at = failing_rest and contract_id = "''BTC_USDC_PERP''"
      and positions_at = failing_rest and ticker = "''BTC''" and response_at = failing_rest]
    a b c d e w
  show ?thesis by metis
qed

subsection \<open>Market orders\<close>

lemma except_to_result_total: "\<exists>r. except_to_result body = Inr r"
  by (cases body) (simp_all add: except_to_result_def)

lemma except_to_result_caught:
  "except_to_result (Inl e) = Inr (order_failed (exn_msg e))"
  by (simp add: except_to_result_def)

lemma order_failed_success [simp]: "\<not> success (order_failed msg)"
  by (simp add: order_failed_def OrderResult_init_def)

lemma except_to_result_failure:
  assumes "\<And>r. body = Inr r \<Longrightarrow> \<not> success r"
  shows "\<exists>r. except_to_result body = Inr r \<and> \<not> success r"
  using assms by (cases body) (simp_all add: except_to_result_def)

lemma except_to_result_success:
  "except_to_result body = Inr r \<Longrightarrow> success r \<Longrightarrow> body = Inr r"
  by (cases body) (auto simp add: except_to_result_def)

lemma backpack_never_raises:
  "\<exists>r. backpack_place_market_order execute_order contract_id quantity side_arg = Inr r"
  unfolding backpack_place_market_order_def by (rule except_to_result_total)

lemma lighter_never_raises:
  "\<exists>r. lighter_place_market_order has_client initialize ws_at bm pm now_ms create_order
          quantity side_arg = Inr r"
  unfolding lighter_place_market_order_def by (rule except_to_result_total)

lemma backpack_invalid_side:
  assumes "lower side_arg \<noteq> ''buy''" and "lower side_arg \<noteq> ''sell''"
  shows "backpack_place_market_order execute_order contract_id quantity side_arg =
           Inr (order_failed (''Invalid side: '' @ side_arg))"
  using assms
  by (simp add: backpack_place_market_order_def backpack_place_market_order_try_def
      except_to_result_def)

lemma backpack_try_success_filled:
  assumes "backpack_place_market_order_try execute_order contract_id quantity side_arg = Inr r"
    and "success r"
  shows "\<exists>result. execute_order contract_id
            (if lower side_arg = ''buy'' then ''Bid'' else ''Ask'') quantity = Inr (Some result) \<and>
          result \<noteq> [] \<and> ''code'' \<notin> fst ` set result \<and>
          status_upper (map_of result ''status'') = Inr ''FILLED'' \<and>
          (lower side_arg = ''buy'' \<or> lower side_arg = ''sell'')"
  using assms
  by (auto simp add: backpack_place_market_order_try_def Let_def OrderResult_init_def
      split: if_splits sum.splits option.splits list.splits)

lemma backpack_success_requires:
  assumes "backpack_place_market_order execute_order contract_id quantity side_arg = Inr r"
    and "success r"
  shows "(lower side_arg = ''buy'' \<or> lower side_arg = ''sell'') \<and>
         (\<exists>result. execute_order contract_id
            (if lower side_arg = ''buy'' then ''Bid'' else ''Ask'') quantity = Inr (Some result) \<and>
          result \<noteq> [] \<and> ''code'' \<notin> fst ` set result \<and>
          status_upper (map_of result ''status'') = Inr ''FILLED'')"
proof -
  from assms have "backpack_place_market_order_try execute_order contract_id quantity side_arg = Inr r"
    unfolding backpack_place_market_order_def by (rule except_to_result_success)
  from backpack_try_success_filled [OF this assms(2)] show ?thesis by blast
qed

lemma lighter_fetch_never_raises:
  "\<exists>bid ask. fst (lighter_fetch_bbo_prices ws_at) = Inr (bid, ask)"
  using query_retry_defaults_never_raises
    [of "(0, 0)" "\<lambda>k. lighter_fetch_bbo_prices_body (ws_at k)"]
  by (auto simp add: lighter_fetch_bbo_prices_def)

lemma lighter_try_success_requires:
  assumes "lighter_place_market_order_try has_client initialize ws_at bm pm now_ms create_order
             quantity side_arg = Inr r"
    and "success r"
  shows "(lower side_arg = ''buy'' \<or> lower side_arg = ''sell'') \<and>
         (\<exists>idx amount limit. create_order idx amount limit (lower side_arg \<noteq> ''buy'') = Inr None)"
  using assms
  by (auto simp add: lighter_place_market_order_try_def Let_def
      split: if_splits sum.splits option.splits prod.splits)

lemma lighter_success_requires:
  assumes "lighter_place_market_order has_client initialize ws_at bm pm now_ms create_order
             quantity side_arg = Inr r"
    and "success r"
  shows "(lower side_arg = ''buy'' \<or> lower side_arg = ''sell'') \<and>
         (\<exists>idx amount limit. create_order idx amount limit (lower side_arg \<noteq> ''buy'') = Inr None)"
proof -
  from assms have "lighter_place_market_order_try has_client initialize ws_at bm pm now_ms
      create_order quantity side_arg = Inr r"
    unfolding lighter_place_market_order_def by (rule except_to_result_success)
  from lighter_try_success_requires [OF this assms(2)] show ?thesis .
qed

lemma lighter_success_unchecked:
  assumes side: "lower side_arg = ''buy'' \<or> lower side_arg = ''sell''"
    and accepted: "\<And>idx amount limit is_ask. create_order idx amount limit is_ask = Inr None"
  shows "\<exists>r. lighter_place_market_order True initialize ws_at (Some bm) (Some pm) now_ms
               create_order quantity side_arg = Inr r \<and>
             success r \<and> status r = Some ''FILLED'' \<and> filled_size r = Some quantity"
proof -
  from lighter_fetch_never_raises [of ws_at] obtain bid ask
    where "fst (lighter_fetch_bbo_prices ws_at) = Inr (bid, ask)" by blast
  with side accepted show ?thesis
    by (auto simp add: lighter_place_market_order_def lighter_place_market_order_try_def
        except_to_result_def Let_def)
qed

lemma lower_buy: "lower ''buy'' = ''buy''"
  by (simp add: lower_def lower_char_def)

lemma lower_Sell: "lower ''SELL'' = ''sell''"
  by (simp add: lower_def lower_char_def)

lemma str_nat_example: "str_nat 234567 = ''234567''"
  by (simp add: str_nat.simps)

lemma py_int_zero: "py_int 0 = 0"
  by (simp add: py_int_def)

lemma lighter_fetch_quoted:
  "lighter_fetch_bbo_prices always_quoted = (Inr (106, 107), 1, [])"
  by (simp add: lighter_fetch_bbo_prices_def query_retry_defaults_def query_retry_def
      retry_call_success lighter_fetch_bbo_prices_body_def always_quoted_def lighter_quote_def)

text \<open>
  C4 on Lighter, for a buy of 0.05 against a quote of 106/107 at a venue that accepts the
  order: the function returns a result with \<open>success\<close> true, status
  \<^verbatim>\<open>FILLED\<close> and the whole quantity as filled size. No input of the function says
  whether the resting limit order was filled: nothing is read from the venue after
  \<^verbatim>\<open>create_order\<close> answers without error.
\<close>

theorem lighter_order_reported_filled_unchecked:
  "lighter_place_market_order True None always_quoted (Some 1000) (Some 100) 1234567
       accepting_venue (5 / 100) ''buy'' =
     Inr \<lparr>success = True, order_id = Some ''234567'', side = Some ''buy'',
          size' = Some (5 / 100), price = Some (107214 / 1000), status = Some ''FILLED'',
          error_message = None, filled_size = Some (5 / 100),
          avg_price = Some (107214 / 1000)\<rparr>"
proof -
  have idx: "(1234567 :: nat) mod 1000000 = 234567" by simp
  show ?thesis
    by (simp add: lighter_place_market_order_def lighter_place_market_order_try_def
        except_to_result_def lighter_fetch_quoted lower_buy idx str_nat_example
        accepting_venue_def Let_def dec_mul_def dec_round_values)
qed

end
